theory Spec2Isabelle
  imports Main "HOL-Library.While_Combinator" "HOL-Library.AList"
begin

section \<open>Data model of the graph executor\<close>

text \<open>
  The development embeds \<^verbatim>\<open>src/executor/graph_executor.ts\<close>. JavaScript objects that
  are shared by reference (the \<^verbatim>\<open>Node\<close>s of a graph, reached through
  \<^verbatim>\<open>children\<close>) live in an object store: a reference is a natural number and the
  store \<open>nodeAt\<close> maps every reference to the node it denotes, so that graphs with
  sharing and with cycles (loops of a control-flow model) are covered.
  Thrown exceptions are values of the type \<open>error\<close>: \<open>Error msg\<close> is an explicit
  \<^verbatim>\<open>throw Error(msg)\<close> of the source, \<open>TypeError site\<close> is the engine's exception for
  a property read on \<^verbatim>\<open>undefined\<close>, with the expression that was dereferenced.
\<close>

datatype error = Error string | TypeError string

record tensor =
  id_t :: nat
  dtype_t :: string
  shape_t :: "int list"

text \<open>\<^verbatim>\<open>NamedTensorsMap\<close> and \<^verbatim>\<open>NamedTensorMap\<close>: objects used as dictionaries. The
  association list keeps the order of \<^verbatim>\<open>Object.keys\<close>; an array element may be
  \<^verbatim>\<open>undefined\<close>.\<close>

type_synonym NamedTensorsMap = "(string \<times> tensor option list) list"
type_synonym NamedTensorMap = "(string \<times> tensor option) list"

text \<open>Values of operator parameters. Numbers that occur as parameters (strides, axes,
  dilations, clip bounds) are integers.\<close>

datatype pvalue = PUndefined | PString string | PNumber int | PNumbers "int list"

type_synonym ref = nat

record node =
  name :: string
  op :: string
  inputNames :: "string list"
  children :: "ref list"
  params :: "string \<rightharpoonup> pvalue"

record graph =
  nodeAt :: "ref \<Rightarrow> node"
  inputs :: "ref list"
  placeholders :: "ref list"
  outputs :: "ref list"
  withControlFlow :: bool

text \<open>Modelled from the spec: the class \<^verbatim>\<open>ExecutionContext\<close> is imported from
  \<^verbatim>\<open>./execution_context\<close>, which is not among the sources. The spec (section 3)
  describes it as a stack of active frames, each identified by a frame name and an
  iteration index; the executor only reads and assigns \<^verbatim>\<open>currentContext\<close>.\<close>

record ExecutionContextInfo =
  id_c :: nat
  frameName :: string
  iterationId :: nat

record ExecutionContext =
  weightMap_c :: NamedTensorsMap
  currentContext :: "ExecutionContextInfo list"

text \<open>The entries of \<^verbatim>\<open>operandInfos\<close>. The index is the value of the operand counter;
  \<^verbatim>\<open>dtype\<close> and \<^verbatim>\<open>shape\<close> are copied from a tensor or from the entry of an input, and
  are \<^verbatim>\<open>undefined\<close> when that input is a value without these properties.\<close>

record OperandInfo =
  index :: nat
  dtype :: "string option"
  shape :: "int list option"

text \<open>The constants of the neural-network context \<^verbatim>\<open>this.nn\<close>.\<close>

record NeuralNetworkContext =
  INT32 :: int
  FLOAT32 :: int
  TENSOR_FLOAT32 :: int
  TENSOR_INT32 :: int
  PADDING_SAME :: int
  PADDING_VALID :: int
  FUSED_NONE :: int
  FUSED_RELU :: int
  FUSED_RELU1 :: int
  FUSED_RELU6 :: int
  CONV_2D :: int
  DEPTHWISE_CONV_2D :: int
  AVERAGE_POOL_2D :: int
  RESHAPE :: int
  SOFTMAX :: int
  PREFER_FAST_SINGLE_ANSWER :: int

text \<open>Calls on the backend's model builder \<^verbatim>\<open>this.model\<close>, in the order they are
  issued. The payload of \<^verbatim>\<open>setOperandValue\<close> is a typed array: the buffer of a tensor
  (as it is, or of its transpose by \<^verbatim>\<open>[3, 0, 1, 2]\<close>), or an array built from
  numbers. The dimensions of an operand and the operand indices that an operation or
  the model takes as inputs are values read from \<^verbatim>\<open>operandInfos\<close>, which may be
  \<^verbatim>\<open>undefined\<close>; the indices of outputs come from the operand counter.\<close>

datatype opvalue =
    BufferValues tensor
  | TransposedBufferValues tensor
  | Int32Array "int list"
  | Float32Array "int list"

datatype nn_call =
    AddOperand int "int list option"
  | SetOperandValue nat opvalue
  | AddOperation int "nat option list" "nat list"
  | IdentifyInputsAndOutputs "nat option list" "nat option list"
  | Finish
  | CreateCompilation
  | SetPreference int
  | FinishCompilation
  | CreateExecution

text \<open>The collaborators that the executor imports and that are not part of the file:
  name parsing and tensor lookup (\<^verbatim>\<open>operations/executors/utils\<close>), operator dispatch
  (\<^verbatim>\<open>operations.executeOp\<close>, which may fail and may change the frame stack of the
  context), the constructor of the execution context, the shape computations and the
  tensor factory of the core library, the backend's constants and its run step.
  \<open>navigator_ml\<close> tells whether the host defines \<^verbatim>\<open>navigator.ml\<close>; \<open>nn\<close> is the context
  that \<^verbatim>\<open>navigator.ml.getNeuralNetworkContext()\<close> returns when it does. Every
  definition below takes them as the parameter \<open>E\<close>; every theorem holds for all of
  them.\<close>

record ext =
  getNodeNameAndIndex :: "string \<Rightarrow> ExecutionContext option \<Rightarrow> string \<times> nat"
  getTensor :: "string \<Rightarrow> NamedTensorsMap \<Rightarrow> ExecutionContext \<Rightarrow> tensor option"
  executeOp :: "node \<Rightarrow> NamedTensorsMap \<Rightarrow> ExecutionContext
                  \<Rightarrow> error + (tensor option list \<times> ExecutionContext)"
  getParamValue :: "string \<Rightarrow> node \<Rightarrow> NamedTensorsMap \<Rightarrow> ExecutionContext \<Rightarrow> pvalue"
  newExecutionContext :: "NamedTensorsMap \<Rightarrow> ExecutionContext"
  computeConv2DInfo :: "int option list \<Rightarrow> int option list \<Rightarrow> int option list
                  \<Rightarrow> int option list \<Rightarrow> pvalue \<Rightarrow> bool \<Rightarrow> int list"
  computePool2DInfo :: "int option list \<Rightarrow> int option list \<Rightarrow> int option list
                  \<Rightarrow> pvalue \<Rightarrow> int list"
  Tensor_make :: "int list \<Rightarrow> string \<Rightarrow> tensor"
  navigator_ml :: bool
  nn :: NeuralNetworkContext
  getBackend :: string
  startCompute :: "nn_call list \<Rightarrow> tensor \<Rightarrow> string option"

section \<open>Plain objects and the members they inherit\<close>

text \<open>The source keeps three sets of names as plain objects created by \<^verbatim>\<open>{}\<close>:
  \<^verbatim>\<open>visited\<close> in \<^verbatim>\<open>compile\<close>, \<^verbatim>\<open>visited\<close> in \<^verbatim>\<open>compileWebMLModel\<close> and \<^verbatim>\<open>added\<close> in
  \<^verbatim>\<open>executeWithControlFlow\<close>. Such an object is tested by \<^verbatim>\<open>obj[key]\<close> and written by
  \<^verbatim>\<open>obj[key] = true\<close>. The read follows the prototype chain, so the model of the object
  is the set of the keys whose read is truthy: the write is \<open>insert\<close>, and the fresh
  object is not the empty set but the set of the property names of
  \<^verbatim>\<open>Object.prototype\<close>, whose values are functions or, for \<^verbatim>\<open>__proto__\<close>, the prototype
  object itself. An assignment to \<^verbatim>\<open>__proto__\<close> leaves that read truthy.\<close>

definition Object_prototype_keys :: "string set" where
  "Object_prototype_keys =
     {''constructor'', ''__defineGetter__'', ''__defineSetter__'', ''hasOwnProperty'',
      ''__lookupGetter__'', ''__lookupSetter__'', ''isPrototypeOf'',
      ''propertyIsEnumerable'', ''toString'', ''valueOf'', ''__proto__'',
      ''toLocaleString''}"

text \<open>An assignment \<^verbatim>\<open>obj[key] = value\<close> to a dictionary creates or updates an own
  property. The key \<^verbatim>\<open>__proto__\<close> is the exception: on an object without an own property
  of that name the assignment reaches the accessor that every object inherits, which
  replaces the prototype of the object when the value is an object and does nothing
  otherwise; the own properties, which \<^verbatim>\<open>Object.keys\<close> enumerates, stay as they are.
  The environments and the result maps are modelled by their own properties, and these
  are what the collaborators of the executor receive.\<close>

definition assign :: "string \<Rightarrow> 'v \<Rightarrow> (string \<times> 'v) list \<Rightarrow> (string \<times> 'v) list" where
  "assign k v m = (if k = ''__proto__'' \<and> map_of m k = None then m else AList.update k v m)"

text \<open>The operand table \<^verbatim>\<open>operandInfos\<close> is a plain object that is written by
  \<^verbatim>\<open>this.operandInfos[name] = info\<close> and read by \<^verbatim>\<open>this.operandInfos[name]\<close>. The table of
  the model maps the names that were written to the entries; the entry under
  \<^verbatim>\<open>__proto__\<close>, if there is one, is the entry that such an assignment made the prototype
  of the table. A read yields the entry written under the name (\<open>Own\<close>); or a value
  that is not an entry and has none of the properties \<^verbatim>\<open>index\<close>, \<^verbatim>\<open>dtype\<close> and
  \<^verbatim>\<open>shape\<close> (\<open>Foreign\<close>): a member inherited from \<^verbatim>\<open>Object.prototype\<close> or, once an entry
  is the prototype, a defined property of that entry; or \<^verbatim>\<open>undefined\<close>.\<close>

datatype operand = Own OperandInfo | Foreign

definition readOperand :: "(string \<rightharpoonup> OperandInfo) \<Rightarrow> string \<Rightarrow> operand option" where
  "readOperand tbl k =
     (case tbl k of
        Some info \<Rightarrow> Some (Own info)
      | None \<Rightarrow>
          if k \<in> Object_prototype_keys then Some Foreign
          else (case tbl ''__proto__'' of
                  None \<Rightarrow> None
                | Some p \<Rightarrow>
                    if k = ''index'' \<or> k = ''dtype'' \<and> dtype p \<noteq> None
                       \<or> k = ''shape'' \<and> shape p \<noteq> None
                    then Some Foreign else None))"

text \<open>The properties \<^verbatim>\<open>index\<close>, \<^verbatim>\<open>dtype\<close> and \<^verbatim>\<open>shape\<close> of a value read from the
  table.\<close>

definition index_of :: "operand \<Rightarrow> nat option" where
  "index_of v = (case v of Own info \<Rightarrow> Some (index info) | Foreign \<Rightarrow> None)"

definition dtype_of :: "operand \<Rightarrow> string option" where
  "dtype_of v = (case v of Own info \<Rightarrow> dtype info | Foreign \<Rightarrow> None)"

definition shape_of :: "operand \<Rightarrow> int list option" where
  "shape_of v = (case v of Own info \<Rightarrow> shape info | Foreign \<Rightarrow> None)"

section \<open>The static compiler\<close>

text \<open>\<^verbatim>\<open>compile\<close>: the work stack is a list whose head is the top (\<^verbatim>\<open>pop\<close> takes the
  last element of the array, so the array \<^verbatim>\<open>[...this.graph.inputs]\<close> is the reversed
  list). \<open>pushChild\<close> is the body of \<^verbatim>\<open>node.children.forEach\<close>; \<open>compile_step\<close> is
  one iteration of the \<^verbatim>\<open>while\<close> loop. The loop is \<open>while_option\<close>: a run that
  never ends is \<open>None\<close>.\<close>

record compile_state =
  stack :: "ref list"
  visited :: "string set"
  compiledOrder :: "ref list"

definition pushChild :: "ext \<Rightarrow> graph \<Rightarrow> string set \<Rightarrow> ref \<Rightarrow> ref list \<Rightarrow> ref list" where
  "pushChild E g vis childNode stk =
     (if name (nodeAt g childNode) \<notin> vis \<and>
         (\<forall>nm \<in> set (inputNames (nodeAt g childNode)).
            fst (getNodeNameAndIndex E nm None) \<in> vis)
      then childNode # stk else stk)"

definition compile_step :: "ext \<Rightarrow> graph \<Rightarrow> compile_state \<Rightarrow> compile_state" where
  "compile_step E g s =
     (case stack s of
        [] \<Rightarrow> s
      | r # rest \<Rightarrow>
          (let vis = insert (name (nodeAt g r)) (visited s)
           in \<lparr>stack = fold (pushChild E g vis) (children (nodeAt g r)) rest,
               visited = vis,
               compiledOrder = compiledOrder s @ [r]\<rparr>))"

definition compile :: "ext \<Rightarrow> graph \<Rightarrow> ref list option" where
  "compile E g =
     (if withControlFlow g then Some []
      else map_option compiledOrder
             (while_option (\<lambda>s. stack s \<noteq> []) (compile_step E g)
                \<lparr>stack = rev (inputs g), visited = Object_prototype_keys,
                 compiledOrder = []\<rparr>))"

section \<open>The executor object and input validation\<close>

record GraphExecutor =
  graph_x :: graph
  compiledOrder_x :: "ref list"
  weightMap :: NamedTensorsMap
  weightIds :: "nat list option"
  placeholders_x :: "string list"
  outputs_x :: "string list"
  compiledWebMLModel :: bool
  operandInfos :: "string \<rightharpoonup> OperandInfo"
  operandIndex :: nat
  model :: "nn_call list"

text \<open>The constructor first reads \<^verbatim>\<open>navigator.ml.getNeuralNetworkContext()\<close>, which
  throws on a host without \<^verbatim>\<open>navigator.ml\<close>, and then runs \<^verbatim>\<open>compile\<close>; \<^verbatim>\<open>weightIds\<close>
  stays \<^verbatim>\<open>undefined\<close> until the setter of \<^verbatim>\<open>weightMap\<close> runs. \<open>None\<close> is a constructor
  that never returns.\<close>

definition GraphExecutor_new :: "ext \<Rightarrow> graph \<Rightarrow> (error + GraphExecutor) option" where
  "GraphExecutor_new E g =
     (if \<not> navigator_ml E then Some (Inl (TypeError ''navigator.ml.getNeuralNetworkContext''))
      else map_option
       (\<lambda>order. Inr \<lparr>graph_x = g, compiledOrder_x = order, weightMap = [], weightIds = None,
                 placeholders_x = map (\<lambda>r. name (nodeAt g r)) (placeholders g),
                 outputs_x = map (\<lambda>r. name (nodeAt g r)) (outputs g),
                 compiledWebMLModel = False, operandInfos = Map.empty, operandIndex = 0,
                 model = []\<rparr>)
       (compile E g))"

text \<open>\<^verbatim>\<open>array.map(tensor => tensor.id)\<close>: fails on an \<^verbatim>\<open>undefined\<close> element.\<close>

definition tensor_ids :: "string \<Rightarrow> tensor option list \<Rightarrow> error + nat list" where
  "tensor_ids site ts =
     (case those ts of None \<Rightarrow> Inl (TypeError site) | Some xs \<Rightarrow> Inr (map id_t xs))"

fun all_tensor_ids :: "string \<Rightarrow> NamedTensorsMap \<Rightarrow> error + nat list" where
  "all_tensor_ids site [] = Inr []"
| "all_tensor_ids site ((k, ts) # m) =
     (case tensor_ids site ts of
        Inl e \<Rightarrow> Inl e
      | Inr xs \<Rightarrow> (case all_tensor_ids site m of Inl e \<Rightarrow> Inl e | Inr ys \<Rightarrow> Inr (xs @ ys)))"

definition set_weightMap :: "NamedTensorsMap \<Rightarrow> GraphExecutor \<Rightarrow> error + GraphExecutor" where
  "set_weightMap wm ex =
     (case all_tensor_ids ''tensor.id'' wm of
        Inl e \<Rightarrow> Inl e
      | Inr ids \<Rightarrow> Inr (ex\<lparr>weightIds := Some ids, weightMap := wm\<rparr>))"

text \<open>The object spread \<^verbatim>\<open>{...a, ...b}\<close>.\<close>

definition spread :: "('k \<times> 'v) list \<Rightarrow> ('k \<times> 'v) list \<Rightarrow> ('k \<times> 'v) list" where
  "spread a b = fold (\<lambda>(k, v). AList.update k v) b a"

text \<open>Conversion of an array of strings inside a template string: the elements joined
  by commas.\<close>

fun joinComma :: "string list \<Rightarrow> string" where
  "joinComma [] = []"
| "joinComma [x] = x"
| "joinComma (x # y # xs) = x @ '','' @ joinComma (y # xs)"

definition checkInput :: "GraphExecutor \<Rightarrow> NamedTensorsMap \<Rightarrow> error + unit" where
  "checkInput ex inputTensors =
     (let inputKeys = map fst inputTensors;
          missing = filter (\<lambda>nm. nm \<notin> set inputKeys) (placeholders_x ex);
          extra = filter (\<lambda>nm. nm \<notin> set (placeholders_x ex)) inputKeys
      in if missing \<noteq> [] then Inl (Error (''Missing input placeholders: '' @ joinComma missing))
         else if extra \<noteq> [] then Inl (Error (''Extra input tensors: '' @ joinComma extra))
         else Inr ())"

text \<open>The optional argument \<^verbatim>\<open>outputs?: string|string[]\<close>. An empty string is falsy, an
  empty array is not.\<close>

datatype outputs_arg = OutputsUndefined | OutputName string | OutputNames "string list"

definition findOutputs ::
  "ext \<Rightarrow> graph \<Rightarrow> NamedTensorsMap \<Rightarrow> ExecutionContext \<Rightarrow> outputs_arg \<Rightarrow> NamedTensorMap" where
  "findOutputs E g tensors cx outs =
     (let outs' = (case outs of
                     OutputName s \<Rightarrow> if s \<noteq> [] then OutputNames [s] else outs
                   | _ \<Rightarrow> outs);
          requestedOutputs = (case outs' of
                     OutputNames ns \<Rightarrow> ns
                   | _ \<Rightarrow> map (\<lambda>r. name (nodeAt g r)) (outputs g))
      in fold (\<lambda>nm m. assign nm (getTensor E nm tensors cx) m) requestedOutputs [])"

section \<open>The dynamic scheduler\<close>

record NodeWithContexts =
  contexts :: "ExecutionContextInfo list"
  node :: ref

record sched_state =
  stack_cf :: "NodeWithContexts list"
  tensorMap :: NamedTensorsMap
  added :: "string set"
  context_cf :: ExecutionContext

text \<open>\<open>visitChild\<close> is the body of \<^verbatim>\<open>item.node.children.forEach\<close> in
  \<^verbatim>\<open>executeWithControlFlow\<close>; \<^verbatim>\<open>!!getTensor(...)\<close> is true exactly when the lookup
  returns a tensor.\<close>

definition visitChild ::
  "ext \<Rightarrow> graph \<Rightarrow> NamedTensorsMap \<Rightarrow> ExecutionContext \<Rightarrow> ref
     \<Rightarrow> string set \<times> NodeWithContexts list \<Rightarrow> string set \<times> NodeWithContexts list" where
  "visitChild E g tm cx childNode st =
     (let nodeName = fst (getNodeNameAndIndex E (name (nodeAt g childNode)) (Some cx))
      in if nodeName \<notin> fst st then
           (if op (nodeAt g childNode) = ''merge'' then
              (if \<exists>nm \<in> set (inputNames (nodeAt g childNode)). getTensor E nm tm cx \<noteq> None
               then (insert nodeName (fst st),
                     \<lparr>contexts = currentContext cx, node = childNode\<rparr> # snd st)
               else st)
            else
              (if \<forall>nm \<in> set (inputNames (nodeAt g childNode)). getTensor E nm tm cx \<noteq> None
               then (insert nodeName (fst st),
                     \<lparr>contexts = currentContext cx, node = childNode\<rparr> # snd st)
               else st))
         else st)"

text \<open>One iteration of the \<^verbatim>\<open>while\<close> loop, for a non-empty stack: pop, restore the
  frame stack, dispatch the operator, record its result, visit the children.\<close>

definition cf_step :: "ext \<Rightarrow> graph \<Rightarrow> sched_state \<Rightarrow> error + sched_state" where
  "cf_step E g s =
     (case stack_cf s of
        [] \<Rightarrow> Inr s
      | item # rest \<Rightarrow>
          (case executeOp E (nodeAt g (node item)) (tensorMap s)
                  ((context_cf s)\<lparr>currentContext := contexts item\<rparr>) of
             Inl e \<Rightarrow> Inl e
           | Inr (tensors, cx) \<Rightarrow>
               (let nodeName = fst (getNodeNameAndIndex E (name (nodeAt g (node item))) (Some cx));
                    tm = assign nodeName tensors (tensorMap s);
                    st = fold (visitChild E g tm cx) (children (nodeAt g (node item)))
                           (added s, rest)
                in Inr \<lparr>stack_cf = snd st, tensorMap = tm, added = fst st,
                        context_cf = cx\<rparr>)))"

partial_function (option) cf_loop :: "ext \<Rightarrow> graph \<Rightarrow> sched_state \<Rightarrow> (error + sched_state) option"
  where
  "cf_loop E g s =
     (if stack_cf s = [] then Some (Inr s)
      else (case cf_step E g s of
              Inl e \<Rightarrow> Some (Inl e)
            | Inr s' \<Rightarrow> cf_loop E g s'))"

definition cf_init :: "GraphExecutor \<Rightarrow> NamedTensorsMap \<Rightarrow> ExecutionContext \<Rightarrow> sched_state" where
  "cf_init ex inputTensors cx =
     \<lparr>stack_cf = rev (map (\<lambda>r. \<lparr>contexts = currentContext cx, node = r\<rparr>)
                        (inputs (graph_x ex))),
      tensorMap = spread (weightMap ex) inputTensors,
      added = Object_prototype_keys,
      context_cf = cx\<rparr>"

definition executeWithControlFlow ::
  "ext \<Rightarrow> GraphExecutor \<Rightarrow> NamedTensorsMap \<Rightarrow> ExecutionContext
     \<Rightarrow> (error + NamedTensorsMap \<times> ExecutionContext) option" where
  "executeWithControlFlow E ex inputTensors cx =
     map_option (map_sum (\<lambda>e. e) (\<lambda>s. (tensorMap s, context_cf s)))
       (cf_loop E (graph_x ex) (cf_init ex inputTensors cx))"

section \<open>Execution with release of the intermediate tensors\<close>

text \<open>\<^verbatim>\<open>Object.keys(results).map(key => results[key].id)\<close>.\<close>

definition result_ids :: "NamedTensorMap \<Rightarrow> error + nat list" where
  "result_ids results = tensor_ids ''results[key].id'' (map snd results)"

text \<open>The body of the inner \<^verbatim>\<open>forEach\<close> of the release pass; the accumulator is the list
  of tensors on which \<^verbatim>\<open>dispose()\<close> was called so far, or the exception that ended
  the pass.\<close>

definition disposeStep ::
  "nat list \<Rightarrow> nat list \<Rightarrow> nat list option \<Rightarrow> tensor option
     \<Rightarrow> error + tensor list \<Rightarrow> error + tensor list" where
  "disposeStep outputIds inputIds wIds t acc =
     (case acc of
        Inl e \<Rightarrow> Inl e
      | Inr disposed \<Rightarrow>
          (case t of
             None \<Rightarrow> Inr disposed
           | Some x \<Rightarrow>
               if id_t x \<notin> set outputIds \<and> id_t x \<notin> set inputIds then
                 (case wIds of
                    None \<Rightarrow> Inl (TypeError ''this.weightIds.indexOf'')
                  | Some w \<Rightarrow> if id_t x \<notin> set w then Inr (disposed @ [x]) else Inr disposed)
               else Inr disposed))"

definition disposeIntermediates ::
  "nat list \<Rightarrow> nat list \<Rightarrow> nat list option \<Rightarrow> NamedTensorsMap \<Rightarrow> error + tensor list" where
  "disposeIntermediates outputIds inputIds wIds tensors =
     fold (\<lambda>(key, tensorArray) acc. fold (disposeStep outputIds inputIds wIds) tensorArray acc)
       tensors (Inr [])"

text \<open>\<^verbatim>\<open>executeAsync\<close> returns the requested outputs; the model returns with them the
  list of tensors the call disposed. \<open>None\<close> is a call that never returns.\<close>

definition executeAsync ::
  "ext \<Rightarrow> GraphExecutor \<Rightarrow> NamedTensorsMap \<Rightarrow> outputs_arg
     \<Rightarrow> (error + NamedTensorMap \<times> tensor list) option" where
  "executeAsync E ex inputTensors outs =
     (case executeWithControlFlow E ex inputTensors (newExecutionContext E (weightMap ex)) of
        None \<Rightarrow> None
      | Some (Inl e) \<Rightarrow> Some (Inl e)
      | Some (Inr (tensors, cx)) \<Rightarrow>
          (let results = findOutputs E (graph_x ex) tensors cx outs
           in case result_ids results of
                Inl e \<Rightarrow> Some (Inl e)
              | Inr outputIds \<Rightarrow>
                  (case all_tensor_ids ''input.id'' inputTensors of
                     Inl e \<Rightarrow> Some (Inl e)
                   | Inr inputIds \<Rightarrow>
                       (case disposeIntermediates outputIds inputIds (weightIds ex) tensors of
                          Inl e \<Rightarrow> Some (Inl e)
                        | Inr disposed \<Rightarrow> Some (Inr (results, disposed))))))"

section \<open>The accelerated path: compilation\<close>

text \<open>JavaScript reads that may yield \<^verbatim>\<open>undefined\<close>: \<open>idx\<close> is \<^verbatim>\<open>xs[i]\<close> on an array,
  \<open>elem\<close> is the same on an array that may hold \<^verbatim>\<open>undefined\<close>, \<open>key_of\<close> is the
  property key that a possibly undefined name denotes, \<open>deref\<close> is a property read
  on the value (a \<^verbatim>\<open>TypeError\<close> when it is \<^verbatim>\<open>undefined\<close>), and \<open>bindE\<close> sequences two
  computations that may throw.\<close>

definition idx :: "'a list \<Rightarrow> nat \<Rightarrow> 'a option" where
  "idx xs i = (if i < length xs then Some (xs ! i) else None)"

definition elem :: "'a option list \<Rightarrow> nat \<Rightarrow> 'a option" where
  "elem xs i = (if i < length xs then xs ! i else None)"

definition key_of :: "string option \<Rightarrow> string" where
  "key_of k = (case k of None \<Rightarrow> ''undefined'' | Some s \<Rightarrow> s)"

definition deref :: "string \<Rightarrow> 'a option \<Rightarrow> error + 'a" where
  "deref site v = (case v of None \<Rightarrow> Inl (TypeError site) | Some x \<Rightarrow> Inr x)"

definition bindE :: "error + 'a \<Rightarrow> ('a \<Rightarrow> error + 'b) \<Rightarrow> error + 'b" where
  "bindE m f = (case m of Inl e \<Rightarrow> Inl e | Inr x \<Rightarrow> f x)"

text \<open>Decimal notation of a number and the conversion of a parameter value inside a
  template string.\<close>

fun digits :: "nat \<Rightarrow> string" where
  "digits n =
     (if n < 10 then [char_of (48 + n)]
      else digits (n div 10) @ [char_of (48 + n mod 10)])"

declare digits.simps [simp del]

definition string_of_int :: "int \<Rightarrow> string" where
  "string_of_int i = (if i < 0 then CHR ''-'' # digits (nat (- i)) else digits (nat i))"

definition jsString :: "pvalue \<Rightarrow> string" where
  "jsString v =
     (case v of
        PUndefined \<Rightarrow> ''undefined''
      | PString s \<Rightarrow> s
      | PNumber i \<Rightarrow> string_of_int i
      | PNumbers xs \<Rightarrow> joinComma (map string_of_int xs))"

text \<open>\<^verbatim>\<open>String.prototype.toUpperCase\<close> on the letters of the ASCII alphabet.\<close>

definition upperChar :: "char \<Rightarrow> char" where
  "upperChar c =
     (case map_of (zip ''abcdefghijklmnopqrstuvwxyz'' ''ABCDEFGHIJKLMNOPQRSTUVWXYZ'') c of
        None \<Rightarrow> c
      | Some u \<Rightarrow> u)"

definition toUpperCase :: "pvalue \<Rightarrow> error + string" where
  "toUpperCase v =
     (case v of
        PString s \<Rightarrow> Inr (map upperChar s)
      | _ \<Rightarrow> Inl (TypeError ''dataFormat.toUpperCase''))"

text \<open>A parameter read under the cast \<^verbatim>\<open>as number[]\<close> and indexed: an absent parameter
  is \<^verbatim>\<open>undefined\<close> and the read throws; a value that is not an array has no elements.\<close>

definition indexNumbers :: "string \<Rightarrow> pvalue \<Rightarrow> nat \<Rightarrow> error + int option" where
  "indexNumbers site v i =
     (case v of
        PUndefined \<Rightarrow> Inl (TypeError site)
      | PNumbers xs \<Rightarrow> Inr (idx xs i)
      | _ \<Rightarrow> Inr None)"

text \<open>\<^verbatim>\<open>new Int32Array([v])\<close>: \<^verbatim>\<open>undefined\<close> becomes 0, a number wraps to 32 bits.
  The payload of \<open>Float32Array\<close> is the argument of \<^verbatim>\<open>new Float32Array([v])\<close>, before the
  rounding to single precision that the typed array applies; the payload of
  \<open>Int32Array\<close> is the content of the array.\<close>

definition toInt32 :: "int option \<Rightarrow> int" where
  "toInt32 v = (case v of None \<Rightarrow> 0 | Some i \<Rightarrow> (i + 2 ^ 31) mod 2 ^ 32 - 2 ^ 31)"

definition addOperand :: "int \<Rightarrow> int list option \<Rightarrow> GraphExecutor \<Rightarrow> GraphExecutor" where
  "addOperand ty dims ex = ex\<lparr>model := model ex @ [AddOperand ty dims]\<rparr>"

definition setOperandValue :: "nat \<Rightarrow> opvalue \<Rightarrow> GraphExecutor \<Rightarrow> GraphExecutor" where
  "setOperandValue i v ex = ex\<lparr>model := model ex @ [SetOperandValue i v]\<rparr>"

definition addOperation ::
  "int \<Rightarrow> nat option list \<Rightarrow> nat list \<Rightarrow> GraphExecutor \<Rightarrow> GraphExecutor" where
  "addOperation opType ins outs ex = ex\<lparr>model := model ex @ [AddOperation opType ins outs]\<rparr>"

definition addScalarInt32 :: "ext \<Rightarrow> int option \<Rightarrow> GraphExecutor \<Rightarrow> nat \<times> GraphExecutor" where
  "addScalarInt32 E v ex =
     (let i = operandIndex ex
      in (i, setOperandValue i (Int32Array [toInt32 v])
               (addOperand (INT32 (nn E)) None (ex\<lparr>operandIndex := i + 1\<rparr>))))"

definition addScalarFloat32 :: "ext \<Rightarrow> int \<Rightarrow> GraphExecutor \<Rightarrow> nat \<times> GraphExecutor" where
  "addScalarFloat32 E v ex =
     (let i = operandIndex ex
      in (i, setOperandValue i (Float32Array [v])
               (addOperand (FLOAT32 (nn E)) None (ex\<lparr>operandIndex := i + 1\<rparr>))))"

text \<open>The state of the \<^verbatim>\<open>reduce\<close> in \<^verbatim>\<open>compileWebMLModel\<close> is the executor (its operand
  counter, operand table and model) and the local set \<^verbatim>\<open>visited\<close>. An exception ends
  the compilation; the half-built state it leaves behind is not part of the result.
  The branches follow the source in the order of their statements.\<close>

type_synonym nn_state = "GraphExecutor \<times> string set"

definition compilePlaceholder :: "ext \<Rightarrow> NamedTensorsMap \<Rightarrow> node \<Rightarrow> nn_state \<Rightarrow> error + nn_state" where
  "compilePlaceholder E tmap n st =
     bindE (deref ''map[node.name][0]'' (map_of tmap (name n))) (\<lambda>arr.
     bindE (deref ''tensor.dtype'' (elem arr 0)) (\<lambda>t.
       (let ex = fst st;
            info = \<lparr>index = operandIndex ex, dtype = Some (dtype_t t),
                    shape = Some (shape_t t)\<rparr>;
            ex1 = ex\<lparr>operandIndex := operandIndex ex + 1,
                     operandInfos := (operandInfos ex)(name n \<mapsto> info)\<rparr>;
            ex2 = addOperand (TENSOR_FLOAT32 (nn E)) (shape info) ex1
        in Inr (ex2, insert (name n) (snd st)))))"

definition compileConst :: "ext \<Rightarrow> NamedTensorsMap \<Rightarrow> node \<Rightarrow> nn_state \<Rightarrow> error + nn_state" where
  "compileConst E tmap n st =
     bindE (deref ''map[node.name][0]'' (map_of tmap (name n))) (\<lambda>arr.
     bindE (deref ''tensor.shape'' (elem arr 0)) (\<lambda>t.
       (let ex = fst st;
            info = \<lparr>index = operandIndex ex, dtype = Some (dtype_t t),
                    shape = Some (shape_t t)\<rparr>;
            ex1 = ex\<lparr>operandIndex := operandIndex ex + 1,
                     operandInfos := (operandInfos ex)(name n \<mapsto> info)\<rparr>;
            ex2 = (if length (shape_t t) = 4
                   then setOperandValue (index info) (TransposedBufferValues t)
                          (addOperand (TENSOR_FLOAT32 (nn E))
                             (Some (map (\<lambda>i. shape_t t ! i) [3, 0, 1, 2])) ex1)
                   else setOperandValue (index info) (BufferValues t)
                          (addOperand (TENSOR_FLOAT32 (nn E)) (shape info) ex1))
        in Inr (ex2, insert (name n) (snd st)))))"

text \<open>The padding scalar, shared by the convolution and the pooling branch.\<close>

definition padScalar :: "ext \<Rightarrow> pvalue \<Rightarrow> GraphExecutor \<Rightarrow> error + nat \<times> GraphExecutor" where
  "padScalar E pad ex =
     (if pad = PString ''same'' then Inr (addScalarInt32 E (Some (PADDING_SAME (nn E))) ex)
      else if pad = PString ''valid'' then Inr (addScalarInt32 E (Some (PADDING_VALID (nn E))) ex)
      else Inl (Error (''padding '' @ jsString pad @ '' is not supported'')))"

text \<open>The fused activation code, computed alike in both branches.\<close>

definition fuseCodeOf :: "ext \<Rightarrow> NamedTensorsMap \<Rightarrow> ExecutionContext \<Rightarrow> node option \<Rightarrow> int" where
  "fuseCodeOf E tmap cx relu =
     (case relu of
        None \<Rightarrow> FUSED_NONE (nn E)
      | Some r \<Rightarrow>
          (let mx = getParamValue E ''clipValueMax'' r tmap cx
           in if mx = PNumber 1 then FUSED_RELU1 (nn E)
              else if mx = PNumber 6 then FUSED_RELU6 (nn E)
              else FUSED_RELU (nn E)))"

text \<open>\<^verbatim>\<open>util.arraysEqual(dilations, [1, 1, 1, 1])\<close> reads \<^verbatim>\<open>dilations.length\<close>; its result
  guards an empty block.\<close>

definition arraysEqual :: "pvalue \<Rightarrow> int list \<Rightarrow> error + bool" where
  "arraysEqual v ys =
     (case v of
        PUndefined \<Rightarrow> Inl (TypeError ''n1.length'')
      | PNumbers xs \<Rightarrow> Inr (xs = ys)
      | _ \<Rightarrow> Inr False)"

text \<open>The pattern match on the children of a convolution: the bias addition and the
  clamp that are fused into it.\<close>

definition convFusion :: "graph \<Rightarrow> node \<Rightarrow> error + node option \<times> node option" where
  "convFusion g conv =
     bindE (deref ''childNode.op'' (idx (children conv) 0)) (\<lambda>c0.
       if op (nodeAt g c0) = ''add'' then
         bindE (deref ''childNode.op'' (idx (children (nodeAt g c0)) 0)) (\<lambda>c1.
           Inr (Some (nodeAt g c0),
                if op (nodeAt g c1) = ''clipByValue'' then Some (nodeAt g c1) else None))
       else Inr (None, None))"

definition markVisited :: "node option \<Rightarrow> string set \<Rightarrow> string set" where
  "markVisited n vis = (case n of None \<Rightarrow> vis | Some x \<Rightarrow> insert (name x) vis)"

definition compileConv ::
  "ext \<Rightarrow> graph \<Rightarrow> NamedTensorsMap \<Rightarrow> ExecutionContext \<Rightarrow> node \<Rightarrow> nn_state \<Rightarrow> error + nn_state" where
  "compileConv E g tmap cx conv st =
     bindE (convFusion g conv) (\<lambda>(biasAdd, relu).
     (let ex = fst st;
          vis = markVisited relu (markVisited biasAdd (insert (name conv) (snd st)))
      in
     bindE (deref ''input.index''
              (readOperand (operandInfos ex) (key_of (idx (inputNames conv) 0)))) (\<lambda>input.
     bindE (deref ''filter.index''
              (readOperand (operandInfos ex) (key_of (idx (inputNames conv) 1)))) (\<lambda>filter.
     bindE (deref ''biasAdd.inputNames'' biasAdd) (\<lambda>b.
     bindE (deref ''bias.index''
              (readOperand (operandInfos ex) (key_of (idx (inputNames b) 1)))) (\<lambda>bias.
     (let pad = getParamValue E ''pad'' conv tmap cx in
     bindE (padScalar E pad ex) (\<lambda>(padIndex, ex1).
     (let strides = getParamValue E ''strides'' conv tmap cx in
     bindE (indexNumbers ''strides[1]'' strides 1) (\<lambda>s1.
     bindE (indexNumbers ''strides[2]'' strides 2) (\<lambda>s2.
     (let (i1, ex2) = addScalarInt32 E s1 ex1;
          (i2, ex3) = addScalarInt32 E s2 ex2;
          depthwise = (op conv \<noteq> ''conv2d'');
          (dw, ex4) = (if depthwise
                       then (let (i, e) = addScalarInt32 E (Some 1) ex3 in ([i], e))
                       else ([], ex3))
      in
     bindE (toUpperCase (getParamValue E ''dataFormat'' conv tmap cx)) (\<lambda>dataFormat.
     if dataFormat \<noteq> ''NHWC''
     then Inl (Error (''dataFormat '' @ dataFormat @ '' is not supported''))
     else
     (let dilations = getParamValue E ''dilations'' conv tmap cx in
     bindE (arraysEqual dilations [1, 1, 1, 1]) (\<lambda>_.
     (let (fuseIndex, ex5) = addScalarInt32 E (Some (fuseCodeOf E tmap cx relu)) ex4;
          outputName = (case relu of Some r \<Rightarrow> name r | None \<Rightarrow> name b)
      in
     bindE (deref ''input.shape[0]'' (shape_of input)) (\<lambda>inputShape.
     bindE (deref ''filter.shape[0]'' (shape_of filter)) (\<lambda>filterShape.
     bindE (indexNumbers ''dilations[0]'' dilations 0) (\<lambda>d0.
     bindE (indexNumbers ''dilations[1]'' dilations 1) (\<lambda>d1.
     (let convInfo = computeConv2DInfo E (map (idx inputShape) [0, 1, 2, 3])
                       (map (idx filterShape) [0, 1, 2, 3]) [s1, s2] [d0, d1] pad depthwise;
          outputInfo = \<lparr>index = operandIndex ex5, dtype = dtype_of input,
                         shape = Some convInfo\<rparr>;
          ex6 = ex5\<lparr>operandIndex := operandIndex ex5 + 1,
                    operandInfos := (operandInfos ex5)(outputName \<mapsto> outputInfo)\<rparr>;
          ex7 = addOperand (TENSOR_FLOAT32 (nn E)) (shape outputInfo) ex6;
          opType = (if depthwise then DEPTHWISE_CONV_2D (nn E) else CONV_2D (nn E))
      in Inr (addOperation opType
                ([index_of input, index_of filter, index_of bias, Some padIndex, Some i1,
                  Some i2] @ map Some dw @ [Some fuseIndex])
                [index outputInfo] ex7,
              vis))))))))))))))))))))))"

definition compileAvgPool ::
  "ext \<Rightarrow> graph \<Rightarrow> NamedTensorsMap \<Rightarrow> ExecutionContext \<Rightarrow> node \<Rightarrow> nn_state \<Rightarrow> error + nn_state" where
  "compileAvgPool E g tmap cx pool st =
     bindE (deref ''childNode.op'' (idx (children pool) 0)) (\<lambda>c0.
     (let ex = fst st;
          relu = (if op (nodeAt g c0) = ''clipByValue'' then Some (nodeAt g c0) else None);
          vis = markVisited relu (insert (name pool) (snd st))
      in
     bindE (deref ''input.index''
              (readOperand (operandInfos ex) (key_of (idx (inputNames pool) 0)))) (\<lambda>input.
     (let pad = getParamValue E ''pad'' pool tmap cx in
     bindE (padScalar E pad ex) (\<lambda>(padIndex, ex1).
     (let strides = getParamValue E ''strides'' pool tmap cx in
     bindE (indexNumbers ''strides[1]'' strides 1) (\<lambda>s1.
     bindE (indexNumbers ''strides[2]'' strides 2) (\<lambda>s2.
     (let (i1, ex2) = addScalarInt32 E s1 ex1;
          (i2, ex3) = addScalarInt32 E s2 ex2;
          kernelSize = getParamValue E ''kernelSize'' pool tmap cx
      in
     bindE (indexNumbers ''kernelSize[1]'' kernelSize 1) (\<lambda>k1.
     bindE (indexNumbers ''kernelSize[2]'' kernelSize 2) (\<lambda>k2.
     (let (i3, ex4) = addScalarInt32 E k1 ex3;
          (i4, ex5) = addScalarInt32 E k2 ex4;
          (fuseIndex, ex6) = addScalarInt32 E (Some (fuseCodeOf E tmap cx relu)) ex5;
          outputName = (case relu of Some r \<Rightarrow> name r | None \<Rightarrow> name pool)
      in
     bindE (deref ''input.shape[0]'' (shape_of input)) (\<lambda>inputShape.
     (let convInfo = computePool2DInfo E (map (idx inputShape) [0, 1, 2, 3])
                       [k1, k2] [s1, s2] pad;
          outputInfo = \<lparr>index = operandIndex ex6, dtype = dtype_of input,
                         shape = Some convInfo\<rparr>;
          ex7 = ex6\<lparr>operandIndex := operandIndex ex6 + 1,
                    operandInfos := (operandInfos ex6)(outputName \<mapsto> outputInfo)\<rparr>;
          ex8 = addOperand (TENSOR_FLOAT32 (nn E)) (shape outputInfo) ex7
      in Inr (addOperation (AVERAGE_POOL_2D (nn E))
                [index_of input, Some padIndex, Some i1, Some i2, Some i3, Some i4,
                 Some fuseIndex]
                [index outputInfo] ex8,
              vis)))))))))))))))"

text \<open>The \<^verbatim>\<open>reduce\<close> of the squeeze branch: \<open>squeezeStep\<close> is its callback, applied to
  the elements of the input shape with their positions. \<^verbatim>\<open>index in axis\<close> asks whether
  the array \<^verbatim>\<open>axis\<close> has a property at the position \<^verbatim>\<open>index\<close>; on a value that is not an
  object the operator throws.\<close>

definition inArray :: "nat \<Rightarrow> 'a list \<Rightarrow> bool" where
  "inArray i xs \<longleftrightarrow> i < length xs"

definition squeezeStep :: "int list \<Rightarrow> int \<times> nat \<Rightarrow> int list \<Rightarrow> int list" where
  "squeezeStep axis vi shp = (if \<not> inArray (snd vi) axis then shp @ [fst vi] else shp)"

definition squeezeShape :: "int list \<Rightarrow> int list \<Rightarrow> int list" where
  "squeezeShape axis inputShape =
     fold (squeezeStep axis) (zip inputShape [0 ..< length inputShape]) []"

definition compileSqueeze :: "ext \<Rightarrow> node \<Rightarrow> nn_state \<Rightarrow> error + nn_state" where
  "compileSqueeze E n st =
     (let ex = fst st in
     bindE (deref ''input.index''
              (readOperand (operandInfos ex) (key_of (idx (inputNames n) 0)))) (\<lambda>input.
     bindE (deref ''node.params[axis].value'' (params n ''axis'')) (\<lambda>axisValue.
     bindE (deref ''inputShape.reduce'' (shape_of input)) (\<lambda>inputShape.
     bindE (case axisValue of
              PNumbers axis \<Rightarrow> Inr (squeezeShape axis inputShape)
            | _ \<Rightarrow> if inputShape = [] then Inr [] else Inl (TypeError ''index in axis''))
       (\<lambda>outShape.
       (let newShape = operandIndex ex;
            ex1 = addOperand (TENSOR_INT32 (nn E)) (Some [int (length outShape)])
                    (ex\<lparr>operandIndex := newShape + 1\<rparr>);
            ex2 = setOperandValue newShape (Int32Array (map (\<lambda>v. toInt32 (Some v)) outShape)) ex1;
            outputInfo = \<lparr>index = operandIndex ex2, dtype = dtype_of input,
                           shape = Some outShape\<rparr>;
            ex3 = ex2\<lparr>operandIndex := operandIndex ex2 + 1,
                      operandInfos := (operandInfos ex2)(name n \<mapsto> outputInfo)\<rparr>;
            ex4 = addOperand (TENSOR_FLOAT32 (nn E)) (shape outputInfo) ex3
        in Inr (addOperation (RESHAPE (nn E)) [index_of input, Some newShape]
                  [index outputInfo] ex4,
                insert (name n) (snd st))))))))"

definition compileSoftmax :: "ext \<Rightarrow> node \<Rightarrow> nn_state \<Rightarrow> error + nn_state" where
  "compileSoftmax E n st =
     (let ex = fst st in
     bindE (deref ''input.index''
              (readOperand (operandInfos ex) (key_of (idx (inputNames n) 0)))) (\<lambda>input.
       (let (beta, ex1) = addScalarFloat32 E 1 ex;
            outputInfo = \<lparr>index = operandIndex ex1, dtype = dtype_of input,
                           shape = shape_of input\<rparr>;
            ex2 = ex1\<lparr>operandIndex := operandIndex ex1 + 1,
                      operandInfos := (operandInfos ex1)(name n \<mapsto> outputInfo)\<rparr>;
            ex3 = addOperand (TENSOR_FLOAT32 (nn E)) (shape outputInfo) ex2
        in Inr (addOperation (SOFTMAX (nn E)) [index_of input, Some beta]
                  [index outputInfo] ex3,
                insert (name n) (snd st)))))"

text \<open>The callback of \<^verbatim>\<open>this.compiledOrder.reduce\<close>: the chain of conditionals on
  \<^verbatim>\<open>node.op\<close>, with the final \<^verbatim>\<open>else\<close> that does nothing.\<close>

definition compileNode ::
  "ext \<Rightarrow> graph \<Rightarrow> NamedTensorsMap \<Rightarrow> ExecutionContext \<Rightarrow> node \<Rightarrow> nn_state \<Rightarrow> error + nn_state" where
  "compileNode E g tmap cx n st =
     (if name n \<in> snd st then Inr st
      else if op n = ''placeholder'' then compilePlaceholder E tmap n st
      else if op n = ''const'' then compileConst E tmap n st
      else if op n = ''conv2d'' \<or> op n = ''depthwiseConv2d'' then compileConv E g tmap cx n st
      else if op n = ''avgPool'' then compileAvgPool E g tmap cx n st
      else if op n = ''squeeze'' then compileSqueeze E n st
      else if op n = ''softmax'' then compileSoftmax E n st
      else Inr st)"

fun compileNodes ::
  "ext \<Rightarrow> graph \<Rightarrow> NamedTensorsMap \<Rightarrow> ExecutionContext \<Rightarrow> ref list \<Rightarrow> nn_state \<Rightarrow> error + nn_state" where
  "compileNodes E g tmap cx [] st = Inr st"
| "compileNodes E g tmap cx (r # rs) st =
     bindE (compileNode E g tmap cx (nodeAt g r) st) (compileNodes E g tmap cx rs)"

definition compileWebMLModel :: "ext \<Rightarrow> GraphExecutor \<Rightarrow> NamedTensorsMap \<Rightarrow> error + GraphExecutor" where
  "compileWebMLModel E ex inputTensors =
     (if compiledWebMLModel ex then Inr ex
      else
        (let g = graph_x ex;
             cx = newExecutionContext E (weightMap ex);
             tmap = spread (weightMap ex) inputTensors
         in
        bindE (compileNodes E g tmap cx (compiledOrder_x ex)
                 (ex\<lparr>model := []\<rparr>, Object_prototype_keys)) (\<lambda>st.
        bindE (deref ''this.graph.placeholders[0].name'' (idx (placeholders g) 0)) (\<lambda>p0.
        bindE (deref ''this.graph.outputs[0].name'' (idx (outputs g) 0)) (\<lambda>o0.
        bindE (deref ''input.index''
                 (readOperand (operandInfos (fst st)) (name (nodeAt g p0)))) (\<lambda>input.
        bindE (deref ''output.index''
                 (readOperand (operandInfos (fst st)) (name (nodeAt g o0)))) (\<lambda>output.
          Inr ((fst st)\<lparr>model := model (fst st) @
                          [IdentifyInputsAndOutputs [index_of input] [index_of output], Finish,
                           CreateCompilation,
                           SetPreference (PREFER_FAST_SINGLE_ANSWER (nn E)),
                           FinishCompilation, CreateExecution],
                        compiledWebMLModel := True\<rparr>))))))))"

section \<open>The accelerated path: execution, and the entry point\<close>

definition executeWebMLModel :: "ext \<Rightarrow> GraphExecutor \<Rightarrow> NamedTensorsMap \<Rightarrow> error + NamedTensorMap" where
  "executeWebMLModel E ex inputTensors =
     (let g = graph_x ex in
     bindE (deref ''this.graph.placeholders[0].name'' (idx (placeholders g) 0)) (\<lambda>p0.
     bindE (deref ''inputs[name][0]'' (map_of inputTensors (name (nodeAt g p0)))) (\<lambda>arr.
     bindE (deref ''inputTensor.buffer'' (elem arr 0)) (\<lambda>inputTensor.
     bindE (deref ''this.graph.outputs[0].name'' (idx (outputs g) 0)) (\<lambda>o0.
     bindE (deref ''output.shape'' (readOperand (operandInfos ex) (name (nodeAt g o0)))) (\<lambda>output.
     bindE (deref ''output.shape.reduce'' (shape_of output)) (\<lambda>outputShape.
       if outputShape = [] then Inl (TypeError ''reduce of empty array with no initial value'')
       else
         (let outputTensor = Tensor_make E outputShape ''float32''
          in case startCompute E (model ex) inputTensor of
               Some err \<Rightarrow> Inl (Error err)
             | None \<Rightarrow> Inr (assign (name (nodeAt g o0)) (Some outputTensor) [])))))))))"

text \<open>The interpreted branch of \<^verbatim>\<open>execute\<close>: the \<^verbatim>\<open>reduce\<close> over the compiled order,
  which stores the result of every node under the node's name.\<close>

fun executeNodes ::
  "ext \<Rightarrow> graph \<Rightarrow> ref list \<Rightarrow> NamedTensorsMap \<times> ExecutionContext
     \<Rightarrow> error + NamedTensorsMap \<times> ExecutionContext" where
  "executeNodes E g [] st = Inr st"
| "executeNodes E g (r # rs) st =
     (case executeOp E (nodeAt g r) (fst st) (snd st) of
        Inl e \<Rightarrow> Inl e
      | Inr (tensors, cx) \<Rightarrow>
          executeNodes E g rs (assign (name (nodeAt g r)) tensors (fst st), cx))"

text \<open>\<^verbatim>\<open>execute\<close> returns the outputs; the model returns with them the executor, whose
  fields the accelerated branch assigns.\<close>

definition execute ::
  "ext \<Rightarrow> GraphExecutor \<Rightarrow> NamedTensorsMap \<Rightarrow> outputs_arg \<Rightarrow> error + NamedTensorMap \<times> GraphExecutor" where
  "execute E ex inputTensors outs =
     bindE (checkInput ex inputTensors) (\<lambda>_.
       if getBackend E = ''webgl'' then
         bindE (executeNodes E (graph_x ex) (compiledOrder_x ex)
                  (spread (weightMap ex) inputTensors, newExecutionContext E (weightMap ex)))
           (\<lambda>(tensors, cx). Inr (findOutputs E (graph_x ex) tensors cx outs, ex))
       else
         bindE (compileWebMLModel E ex inputTensors) (\<lambda>ex'.
         bindE (executeWebMLModel E ex' inputTensors) (\<lambda>result. Inr (result, ex'))))"

section \<open>Notions used in the statements\<close>

text \<open>A sequence of nodes is in dependency order when every declared input of every
  member, reduced to its node name, is the name of a member at an earlier position.\<close>

definition dependency_ordered :: "ext \<Rightarrow> graph \<Rightarrow> ref list \<Rightarrow> bool" where
  "dependency_ordered E g order \<longleftrightarrow>
     (\<forall>i < length order. \<forall>nm \<in> set (inputNames (nodeAt g (order ! i))).
        \<exists>j < i. name (nodeAt g (order ! j)) = fst (getNodeNameAndIndex E nm None))"

definition ready :: "ext \<Rightarrow> graph \<Rightarrow> string set \<Rightarrow> ref \<Rightarrow> bool" where
  "ready E g vis c \<longleftrightarrow>
     name (nodeAt g c) \<notin> vis \<and>
     (\<forall>nm \<in> set (inputNames (nodeAt g c)). fst (getNodeNameAndIndex E nm None) \<in> vis)"

definition compile_inv :: "ext \<Rightarrow> graph \<Rightarrow> compile_state \<Rightarrow> bool" where
  "compile_inv E g s \<longleftrightarrow>
     visited s = Object_prototype_keys \<union> (\<lambda>r. name (nodeAt g r)) ` set (compiledOrder s) \<and>
     dependency_ordered E g (compiledOrder s) \<and>
     (\<forall>r \<in> set (stack s). \<forall>nm \<in> set (inputNames (nodeAt g r)).
        fst (getNodeNameAndIndex E nm None) \<in> visited s)"

text \<open>The variant of the compiler's loop: the names not yet visited, then the stack
  entries whose name is already visited.\<close>

definition compile_measure :: "graph \<Rightarrow> compile_state \<Rightarrow> nat \<times> nat" where
  "compile_measure g s =
     (card (range (\<lambda>r. name (nodeAt g r)) - visited s),
      length (filter (\<lambda>r. name (nodeAt g r) \<in> visited s) (stack s)))"

text \<open>The name under which the scheduler marks a child as scheduled, and the readiness
  test it applies to the child.\<close>

definition qualifiedName :: "ext \<Rightarrow> graph \<Rightarrow> ExecutionContext \<Rightarrow> ref \<Rightarrow> string" where
  "qualifiedName E g cx c = fst (getNodeNameAndIndex E (name (nodeAt g c)) (Some cx))"

definition schedulable :: "ext \<Rightarrow> graph \<Rightarrow> NamedTensorsMap \<Rightarrow> ExecutionContext \<Rightarrow> ref \<Rightarrow> bool" where
  "schedulable E g tm cx c \<longleftrightarrow>
     (if op (nodeAt g c) = ''merge''
      then \<exists>nm \<in> set (inputNames (nodeAt g c)). getTensor E nm tm cx \<noteq> None
      else \<forall>nm \<in> set (inputNames (nodeAt g c)). getTensor E nm tm cx \<noteq> None)"

text \<open>The children that one \<^verbatim>\<open>forEach\<close> pushes, given the names already marked.\<close>

fun pushedChildren ::
  "ext \<Rightarrow> graph \<Rightarrow> NamedTensorsMap \<Rightarrow> ExecutionContext \<Rightarrow> ref list \<Rightarrow> string set \<Rightarrow> ref list" where
  "pushedChildren E g tm cx [] A = []"
| "pushedChildren E g tm cx (c # cs) A =
     (if qualifiedName E g cx c \<notin> A \<and> schedulable E g tm cx c
      then c # pushedChildren E g tm cx cs (insert (qualifiedName E g cx c) A)
      else pushedChildren E g tm cx cs A)"

text \<open>The stack entries that the iteration from \<open>s\<close> to \<open>s'\<close> pushed, oldest first: the
  iteration pops one entry and pushes on top of the rest. \<open>schedule_log E g k s\<close> lists
  the pushes of the first \<open>k\<close> iterations that start in \<open>s\<close>, each with the
  frame-qualified name it was marked under and with the environment and the context at
  the time of the push.\<close>

definition new_entries :: "sched_state \<Rightarrow> sched_state \<Rightarrow> NodeWithContexts list" where
  "new_entries s s' = rev (take (Suc (length (stack_cf s')) - length (stack_cf s)) (stack_cf s'))"

fun schedule_log ::
  "ext \<Rightarrow> graph \<Rightarrow> nat \<Rightarrow> sched_state \<Rightarrow> (string \<times> ref \<times> NamedTensorsMap \<times> ExecutionContext) list" where
  "schedule_log E g 0 s = []"
| "schedule_log E g (Suc k) s =
     (if stack_cf s = [] then []
      else (case cf_step E g s of
              Inl e \<Rightarrow> []
            | Inr s' \<Rightarrow>
                map (\<lambda>w. (qualifiedName E g (context_cf s') (node w), node w,
                          tensorMap s', context_cf s'))
                    (new_entries s s')
                @ schedule_log E g k s'))"

text \<open>The tensors of an array (its elements other than \<^verbatim>\<open>undefined\<close>), of an environment
  and of a result map.\<close>

fun defined :: "'a option list \<Rightarrow> 'a list" where
  "defined [] = []"
| "defined (None # ts) = defined ts"
| "defined (Some x # ts) = x # defined ts"

definition env_tensors :: "NamedTensorsMap \<Rightarrow> tensor list" where
  "env_tensors tm = concat (map (\<lambda>(k, ts). defined ts) tm)"

definition result_tensors :: "NamedTensorMap \<Rightarrow> tensor list" where
  "result_tensors results = defined (map snd results)"

definition id_set :: "nat list option \<Rightarrow> nat set" where
  "id_set w = (case w of None \<Rightarrow> {} | Some xs \<Rightarrow> set xs)"

text \<open>The statements of a convolution (of a pooling) that precede its parameter checks do
  not throw: the first child is an \<^verbatim>\<open>add\<close> that has a child, and the operands of the
  input, the filter and the bias are known (the pooling node has a child and its input
  operand is known).\<close>

definition conv_reaches_parameters :: "graph \<Rightarrow> node \<Rightarrow> GraphExecutor \<Rightarrow> bool" where
  "conv_reaches_parameters g n ex \<longleftrightarrow>
     (case convFusion g n of
        Inr (Some b, relu) \<Rightarrow>
          operandInfos ex (key_of (idx (inputNames n) 0)) \<noteq> None \<and>
          operandInfos ex (key_of (idx (inputNames n) 1)) \<noteq> None \<and>
          operandInfos ex (key_of (idx (inputNames b) 1)) \<noteq> None
      | _ \<Rightarrow> False)"

definition pool_reaches_parameters :: "node \<Rightarrow> GraphExecutor \<Rightarrow> bool" where
  "pool_reaches_parameters n ex \<longleftrightarrow>
     children n \<noteq> [] \<and> operandInfos ex (key_of (idx (inputNames n) 0)) \<noteq> None"

section \<open>Example inputs\<close>

text \<open>Simple collaborators: names carry no output index and no frame, a name resolves to
  the first tensor stored under it, a placeholder evaluates to its input and every other
  operator to a fresh tensor.\<close>

definition example_ext :: ext where
  "example_ext =
     \<lparr>getNodeNameAndIndex = (\<lambda>nm cx. (nm, 0)),
      getTensor = (\<lambda>nm tm cx. case map_of tm nm of None \<Rightarrow> None | Some arr \<Rightarrow> elem arr 0),
      executeOp = (\<lambda>n tm cx.
         if op n = ''placeholder''
         then Inr ([case map_of tm (name n) of None \<Rightarrow> None | Some arr \<Rightarrow> elem arr 0], cx)
         else Inr ([Some \<lparr>id_t = 100 + length tm, dtype_t = ''float32'', shape_t = [1]\<rparr>], cx)),
      getParamValue = (\<lambda>p n tm cx. case params n p of None \<Rightarrow> PUndefined | Some v \<Rightarrow> v),
      newExecutionContext = (\<lambda>wm. \<lparr>weightMap_c = wm,
         currentContext = [\<lparr>id_c = 0, frameName = [], iterationId = 0\<rparr>]\<rparr>),
      computeConv2DInfo = (\<lambda>i f s d p dw. [1, 1, 1, 1]),
      computePool2DInfo = (\<lambda>i k s p. [1, 1, 1, 1]),
      Tensor_make = (\<lambda>shp dt. \<lparr>id_t = 999, dtype_t = dt, shape_t = shp\<rparr>),
      navigator_ml = True,
      nn = \<lparr>INT32 = 0, FLOAT32 = 1, TENSOR_FLOAT32 = 2, TENSOR_INT32 = 3, PADDING_SAME = 1,
            PADDING_VALID = 2, FUSED_NONE = 0, FUSED_RELU = 1, FUSED_RELU1 = 2, FUSED_RELU6 = 3,
            CONV_2D = 3, DEPTHWISE_CONV_2D = 4, AVERAGE_POOL_2D = 1, RESHAPE = 22, SOFTMAX = 25,
            PREFER_FAST_SINGLE_ANSWER = 1\<rparr>,
      getBackend = ''webgl'',
      startCompute = (\<lambda>m t. None)\<rparr>"

text \<open>The graph of \<^verbatim>\<open>y = softmax(x * x)\<close>: the multiplication lists \<^verbatim>\<open>x\<close> twice among
  its inputs and is listed twice among the children of \<^verbatim>\<open>x\<close>.\<close>

definition square_graph :: graph where
  "square_graph =
     \<lparr>nodeAt = (\<lambda>r. if r = 0 then \<lparr>name = ''x'', op = ''placeholder'', inputNames = [],
                                    children = [1, 1], params = Map.empty\<rparr>
                     else if r = 1 then \<lparr>name = ''sq'', op = ''mul'', inputNames = [''x'', ''x''],
                                    children = [2], params = Map.empty\<rparr>
                     else \<lparr>name = ''y'', op = ''softmax'', inputNames = [''sq''],
                                    children = [], params = Map.empty\<rparr>),
      inputs = [0], placeholders = [0], outputs = [2], withControlFlow = False\<rparr>"

text \<open>A graph in which a node carries a name that every JavaScript object inherits:
  \<^verbatim>\<open>y\<close> adds \<^verbatim>\<open>x\<close> and the node \<^verbatim>\<open>constructor\<close>, which is a copy of \<^verbatim>\<open>x\<close>.\<close>

definition ctor_graph :: graph where
  "ctor_graph =
     \<lparr>nodeAt = (\<lambda>r. if r = 0 then \<lparr>name = ''x'', op = ''placeholder'', inputNames = [],
                                    children = [1, 2], params = Map.empty\<rparr>
                     else if r = 1 then \<lparr>name = ''constructor'', op = ''identity'',
                                    inputNames = [''x''], children = [2], params = Map.empty\<rparr>
                     else \<lparr>name = ''y'', op = ''add'', inputNames = [''x'', ''constructor''],
                                    children = [], params = Map.empty\<rparr>),
      inputs = [0], placeholders = [0], outputs = [2], withControlFlow = False\<rparr>"

text \<open>A graph with a merge: \<^verbatim>\<open>m\<close> merges \<^verbatim>\<open>a\<close> with \<^verbatim>\<open>b\<close>, and no node named \<^verbatim>\<open>b\<close> is
  ever executed. The executor holds one weight tensor.\<close>

definition merge_graph :: graph where
  "merge_graph =
     \<lparr>nodeAt = (\<lambda>r. if r = 0 then \<lparr>name = ''x'', op = ''placeholder'', inputNames = [],
                                    children = [1, 3], params = Map.empty\<rparr>
                     else if r = 1 then \<lparr>name = ''a'', op = ''identity'', inputNames = [''x''],
                                    children = [2], params = Map.empty\<rparr>
                     else if r = 2 then \<lparr>name = ''m'', op = ''merge'', inputNames = [''a'', ''b''],
                                    children = [3], params = Map.empty\<rparr>
                     else \<lparr>name = ''y'', op = ''add'', inputNames = [''x'', ''m''],
                                    children = [], params = Map.empty\<rparr>),
      inputs = [0], placeholders = [0], outputs = [3], withControlFlow = True\<rparr>"

definition example_tensor :: "nat \<Rightarrow> tensor" where
  "example_tensor i = \<lparr>id_t = i, dtype_t = ''float32'', shape_t = [1]\<rparr>"

definition merge_executor :: GraphExecutor where
  "merge_executor =
     \<lparr>graph_x = merge_graph, compiledOrder_x = [],
      weightMap = [(''w'', [Some (example_tensor 2)])], weightIds = Some [2],
      placeholders_x = [''x''], outputs_x = [''y''], compiledWebMLModel = False,
      operandInfos = Map.empty, operandIndex = 0, model = []\<rparr>"

definition root_context :: ExecutionContext where
  "root_context = newExecutionContext example_ext (weightMap merge_executor)"



text \<open>The executor of the merge graph as the constructor leaves it; the setter of
  \<^verbatim>\<open>weightMap\<close> turns it into \<open>merge_executor\<close>.\<close>

definition merge_executor0 :: GraphExecutor where
  "merge_executor0 =
     \<lparr>graph_x = merge_graph, compiledOrder_x = [], weightMap = [], weightIds = None,
      placeholders_x = [''x''], outputs_x = [''y''], compiledWebMLModel = False,
      operandInfos = Map.empty, operandIndex = 0, model = []\<rparr>"

text \<open>A graph for the accelerated path, on a backend other than \<^verbatim>\<open>webgl\<close>: a squeeze with
  axis \<^verbatim>\<open>[1, 2]\<close> of a four-dimensional placeholder, consumed by an identity and by the
  softmax that is the graph's output. \<open>squeeze_state\<close> is the state of the compilation
  once the placeholder is compiled.\<close>

definition accel_ext :: ext where
  "accel_ext = example_ext\<lparr>getBackend := ''webml''\<rparr>"

definition squeeze_graph :: graph where
  "squeeze_graph =
     \<lparr>nodeAt = (\<lambda>r. if r = 0 then \<lparr>name = ''x'', op = ''placeholder'', inputNames = [],
                                    children = [1], params = Map.empty\<rparr>
                     else if r = 1 then \<lparr>name = ''sq'', op = ''squeeze'', inputNames = [''x''],
                                    children = [2, 3],
                                    params = [''axis'' \<mapsto> PNumbers [1, 2]]\<rparr>
                     else if r = 2 then \<lparr>name = ''id'', op = ''identity'', inputNames = [''sq''],
                                    children = [], params = Map.empty\<rparr>
                     else \<lparr>name = ''y'', op = ''softmax'', inputNames = [''sq''],
                                    children = [], params = Map.empty\<rparr>),
      inputs = [0], placeholders = [0], outputs = [3], withControlFlow = False\<rparr>"

definition squeeze_executor :: GraphExecutor where
  "squeeze_executor =
     \<lparr>graph_x = squeeze_graph, compiledOrder_x = [0, 1, 3, 2], weightMap = [], weightIds = None,
      placeholders_x = [''x''], outputs_x = [''y''], compiledWebMLModel = False,
      operandInfos = Map.empty, operandIndex = 0, model = []\<rparr>"

definition squeeze_inputs :: NamedTensorsMap where
  "squeeze_inputs = [(''x'', [Some \<lparr>id_t = 1, dtype_t = ''float32'', shape_t = [1, 1, 1, 3]\<rparr>])]"

definition squeeze_state :: nn_state where
  "squeeze_state =
     (squeeze_executor
        \<lparr>operandInfos := [''x'' \<mapsto> \<lparr>index = 0, dtype = Some ''float32'', shape = Some [1, 1, 1, 3]\<rparr>],
         operandIndex := 1,
         model := [AddOperand 2 (Some [1, 1, 1, 3])]\<rparr>,
      insert ''x'' Object_prototype_keys)"

text \<open>A convolution with bias addition and clamp, with its padding, data layout,
  dilations and the operator of its first child as parameters, and an average pooling
  with its padding as parameter. \<open>conv_executor\<close> carries the order that the constructor
  computes for the graph: the constants first, since the last graph input is popped
  first. \<open>conv_state\<close> and \<open>pool_state\<close> are the states of the compilation when the
  convolution, respectively the pooling, is reached.\<close>

definition conv_graph :: "string \<Rightarrow> string \<Rightarrow> int list \<Rightarrow> string \<Rightarrow> graph" where
  "conv_graph pad df dil childOp =
     \<lparr>nodeAt = (\<lambda>r.
        if r = 0 then \<lparr>name = ''x'', op = ''placeholder'', inputNames = [],
                       children = [3], params = Map.empty\<rparr>
        else if r = 1 then \<lparr>name = ''w'', op = ''const'', inputNames = [],
                       children = [3], params = Map.empty\<rparr>
        else if r = 2 then \<lparr>name = ''b'', op = ''const'', inputNames = [],
                       children = [4], params = Map.empty\<rparr>
        else if r = 3 then \<lparr>name = ''conv'', op = ''conv2d'', inputNames = [''x'', ''w''],
                       children = [4],
                       params = [''pad'' \<mapsto> PString pad, ''strides'' \<mapsto> PNumbers [1, 1, 1, 1],
                                 ''dataFormat'' \<mapsto> PString df, ''dilations'' \<mapsto> PNumbers dil]\<rparr>
        else if r = 4 then \<lparr>name = ''add'', op = childOp, inputNames = [''conv'', ''b''],
                       children = [5], params = Map.empty\<rparr>
        else if r = 5 then \<lparr>name = ''relu6'', op = ''clipByValue'', inputNames = [''add''],
                       children = [6], params = [''clipValueMax'' \<mapsto> PNumber 6]\<rparr>
        else \<lparr>name = ''y'', op = ''softmax'', inputNames = [''relu6''],
                       children = [], params = Map.empty\<rparr>),
      inputs = [0, 1, 2], placeholders = [0], outputs = [6], withControlFlow = False\<rparr>"

definition conv_executor :: "string \<Rightarrow> string \<Rightarrow> int list \<Rightarrow> string \<Rightarrow> GraphExecutor" where
  "conv_executor pad df dil childOp =
     \<lparr>graph_x = conv_graph pad df dil childOp, compiledOrder_x = [2, 1, 0, 3, 4, 5, 6],
      weightMap = [(''w'', [Some \<lparr>id_t = 2, dtype_t = ''float32'', shape_t = [1, 1, 1, 1]\<rparr>]),
                   (''b'', [Some \<lparr>id_t = 3, dtype_t = ''float32'', shape_t = [1]\<rparr>])],
      weightIds = Some [2, 3],
      placeholders_x = [''x''], outputs_x = [''y''], compiledWebMLModel = False,
      operandInfos = Map.empty, operandIndex = 0, model = []\<rparr>"

definition conv_inputs :: NamedTensorsMap where
  "conv_inputs = [(''x'', [Some \<lparr>id_t = 1, dtype_t = ''float32'', shape_t = [1, 4, 4, 1]\<rparr>])]"

definition conv_tmap :: NamedTensorsMap where
  "conv_tmap = spread (weightMap (conv_executor [] [] [] [])) conv_inputs"

definition conv_state :: "string \<Rightarrow> string \<Rightarrow> int list \<Rightarrow> string \<Rightarrow> nn_state" where
  "conv_state pad df dil childOp =
     ((conv_executor pad df dil childOp)
        \<lparr>operandInfos :=
           [''b'' \<mapsto> \<lparr>index = 0, dtype = Some ''float32'', shape = Some [1]\<rparr>,
            ''w'' \<mapsto> \<lparr>index = 1, dtype = Some ''float32'', shape = Some [1, 1, 1, 1]\<rparr>,
            ''x'' \<mapsto> \<lparr>index = 2, dtype = Some ''float32'', shape = Some [1, 4, 4, 1]\<rparr>],
         operandIndex := 3,
         model := [AddOperand 2 (Some [1]),
                   SetOperandValue 0
                     (BufferValues \<lparr>id_t = 3, dtype_t = ''float32'', shape_t = [1]\<rparr>),
                   AddOperand 2 (Some [1, 1, 1, 1]),
                   SetOperandValue 1
                     (TransposedBufferValues \<lparr>id_t = 2, dtype_t = ''float32'', shape_t = [1, 1, 1, 1]\<rparr>),
                   AddOperand 2 (Some [1, 4, 4, 1])]\<rparr>,
      insert ''x'' (insert ''w'' (insert ''b'' Object_prototype_keys)))"

definition pool_graph :: "string \<Rightarrow> graph" where
  "pool_graph pad =
     \<lparr>nodeAt = (\<lambda>r.
        if r = 0 then \<lparr>name = ''x'', op = ''placeholder'', inputNames = [],
                       children = [1], params = Map.empty\<rparr>
        else if r = 1 then \<lparr>name = ''pool'', op = ''avgPool'', inputNames = [''x''],
                       children = [2],
                       params = [''pad'' \<mapsto> PString pad, ''strides'' \<mapsto> PNumbers [1, 2, 2, 1],
                                 ''kernelSize'' \<mapsto> PNumbers [1, 2, 2, 1]]\<rparr>
        else \<lparr>name = ''y'', op = ''softmax'', inputNames = [''pool''],
                       children = [], params = Map.empty\<rparr>),
      inputs = [0], placeholders = [0], outputs = [2], withControlFlow = False\<rparr>"

definition pool_executor :: "string \<Rightarrow> GraphExecutor" where
  "pool_executor pad =
     \<lparr>graph_x = pool_graph pad, compiledOrder_x = [0, 1, 2], weightMap = [], weightIds = None,
      placeholders_x = [''x''], outputs_x = [''y''], compiledWebMLModel = False,
      operandInfos = Map.empty, operandIndex = 0, model = []\<rparr>"

definition pool_state :: "string \<Rightarrow> nn_state" where
  "pool_state pad =
     ((pool_executor pad)
        \<lparr>operandInfos := [''x'' \<mapsto> \<lparr>index = 0, dtype = Some ''float32'', shape = Some [1, 4, 4, 1]\<rparr>],
         operandIndex := 1,
         model := [AddOperand 2 (Some [1, 4, 4, 1])]\<rparr>,
      insert ''x'' Object_prototype_keys)"

section \<open>The static compiler and inherited names\<close>

text \<open>None of the names used in the examples, the node \<^verbatim>\<open>constructor\<close> of
  \<open>ctor_graph\<close> apart, is a name that objects inherit.\<close>

lemma example_names_own [simp]:
  "''x'' \<notin> Object_prototype_keys" "''y'' \<notin> Object_prototype_keys"
  "''a'' \<notin> Object_prototype_keys" "''m'' \<notin> Object_prototype_keys"
  "''w'' \<notin> Object_prototype_keys" "''b'' \<notin> Object_prototype_keys"
  "''sq'' \<notin> Object_prototype_keys" "''id'' \<notin> Object_prototype_keys"
  "''conv'' \<notin> Object_prototype_keys" "''add'' \<notin> Object_prototype_keys"
  "''relu6'' \<notin> Object_prototype_keys" "''pool'' \<notin> Object_prototype_keys"
  "''constructor'' \<in> Object_prototype_keys"
  by (simp_all add: Object_prototype_keys_def)

lemma assign_update [simp]: "k \<noteq> ''__proto__'' \<Longrightarrow> assign k v m = AList.update k v m"
  by (simp add: assign_def)

lemma readOperand_own [simp]: "tbl k = Some info \<Longrightarrow> readOperand tbl k = Some (Own info)"
  by (simp add: readOperand_def)

text \<open>A requested output named \<^verbatim>\<open>__proto__\<close> never becomes a key of the result, and
  once an entry is the prototype of the operand table its property \<^verbatim>\<open>index\<close> is read
  under the name \<^verbatim>\<open>index\<close>.\<close>

lemma findOutputs_proto: "findOutputs E g tensors cx (OutputNames [''__proto__'']) = []"
  by (simp add: findOutputs_def assign_def)

lemma readOperand_proto:
  "readOperand [''__proto__'' \<mapsto> p] ''__proto__'' = Some (Own p)"
  "readOperand [''__proto__'' \<mapsto> p] ''index'' = Some Foreign"
  "readOperand Map.empty ''__proto__'' = Some Foreign"
  "readOperand Map.empty ''index'' = None"
  by (simp_all add: readOperand_def Object_prototype_keys_def)

lemma operand_simps [simp]:
  "index_of (Own info) = Some (index info)" "index_of Foreign = None"
  "dtype_of (Own info) = dtype info" "dtype_of Foreign = None"
  "shape_of (Own info) = shape info" "shape_of Foreign = None"
  by (simp_all add: index_of_def dtype_of_def shape_of_def)


lemma fold_pushChild:
  "fold (pushChild E g vis) cs stk = rev (filter (ready E g vis) cs) @ stk"
  by (induction cs arbitrary: stk) (auto simp: pushChild_def ready_def)

lemma compile_step_Cons:
  assumes "stack s = r # rest"
  shows "compile_step E g s =
      \<lparr>stack = rev (filter (ready E g (insert (name (nodeAt g r)) (visited s)))
                      (children (nodeAt g r))) @ rest,
       visited = insert (name (nodeAt g r)) (visited s),
       compiledOrder = compiledOrder s @ [r]\<rparr>"
  by (simp add: compile_step_def assms fold_pushChild Let_def)

lemma dependency_ordered_snoc:
  assumes "dependency_ordered E g order"
    and "\<forall>nm \<in> set (inputNames (nodeAt g r)).
           fst (getNodeNameAndIndex E nm None) \<in> (\<lambda>r. name (nodeAt g r)) ` set order"
  shows "dependency_ordered E g (order @ [r])"
  unfolding dependency_ordered_def
proof (intro allI impI ballI)
  fix i nm
  assume i: "i < length (order @ [r])"
    and nm: "nm \<in> set (inputNames (nodeAt g ((order @ [r]) ! i)))"
  show "\<exists>j<i. name (nodeAt g ((order @ [r]) ! j)) = fst (getNodeNameAndIndex E nm None)"
  proof (cases "i < length order")
    case True
    with nm have "nm \<in> set (inputNames (nodeAt g (order ! i)))" by (simp add: nth_append)
    with assms(1) True obtain j
      where "j < i" "name (nodeAt g (order ! j)) = fst (getNodeNameAndIndex E nm None)"
      unfolding dependency_ordered_def by blast
    with True show ?thesis by (auto simp: nth_append intro!: exI[of _ j])
  next
    case False
    with i have ieq: "i = length order" by simp
    with nm have "nm \<in> set (inputNames (nodeAt g r))" by simp
    with assms(2) obtain r'
      where r': "r' \<in> set order" "name (nodeAt g r') = fst (getNodeNameAndIndex E nm None)"
      by force
    then obtain j where "j < length order" "order ! j = r'" by (auto simp: in_set_conv_nth)
    with ieq r' show ?thesis by (auto simp: nth_append intro!: exI[of _ j])
  qed
qed

lemma compile_inv_step:
  assumes "compile_inv E g s" "stack s \<noteq> []"
    and own: "\<forall>r. \<forall>nm \<in> set (inputNames (nodeAt g r)).
           fst (getNodeNameAndIndex E nm None) \<notin> Object_prototype_keys"
  shows "compile_inv E g (compile_step E g s)"
proof -
  from assms(2) obtain r rest where st: "stack s = r # rest" by (cases "stack s") auto
  let ?vis = "insert (name (nodeAt g r)) (visited s)"
  from assms(1)
  have v: "visited s = Object_prototype_keys \<union> (\<lambda>r. name (nodeAt g r)) ` set (compiledOrder s)"
    and t: "dependency_ordered E g (compiledOrder s)"
    and k: "\<forall>r \<in> set (stack s). \<forall>nm \<in> set (inputNames (nodeAt g r)).
              fst (getNodeNameAndIndex E nm None) \<in> visited s"
    by (auto simp: compile_inv_def)
  have "\<forall>nm \<in> set (inputNames (nodeAt g r)).
      fst (getNodeNameAndIndex E nm None) \<in> (\<lambda>r. name (nodeAt g r)) ` set (compiledOrder s)"
  proof
    fix nm assume nm: "nm \<in> set (inputNames (nodeAt g r))"
    with k st have "fst (getNodeNameAndIndex E nm None) \<in> visited s" by simp
    moreover from own nm have "fst (getNodeNameAndIndex E nm None) \<notin> Object_prototype_keys"
      by blast
    ultimately show
      "fst (getNodeNameAndIndex E nm None) \<in> (\<lambda>r. name (nodeAt g r)) ` set (compiledOrder s)"
      using v by blast
  qed
  with t have t': "dependency_ordered E g (compiledOrder s @ [r])"
    by (rule dependency_ordered_snoc)
  have v': "?vis = Object_prototype_keys \<union> (\<lambda>r. name (nodeAt g r)) ` set (compiledOrder s @ [r])"
    using v by auto
  have k': "\<forall>c \<in> set (rev (filter (ready E g ?vis) (children (nodeAt g r))) @ rest).
       \<forall>nm \<in> set (inputNames (nodeAt g c)). fst (getNodeNameAndIndex E nm None) \<in> ?vis"
    using k st by (auto simp: ready_def)
  show ?thesis unfolding compile_step_Cons[OF st] compile_inv_def using t' v' k' by simp
qed

lemma compile_step_decreases:
  assumes fin: "finite (range (\<lambda>r. name (nodeAt g r)))" and ne: "stack s \<noteq> []"
  shows "(compile_measure g (compile_step E g s), compile_measure g s)
           \<in> less_than <*lex*> less_than"
proof -
  from ne obtain r rest where st: "stack s = r # rest" by (cases "stack s") auto
  let ?U = "range (\<lambda>r. name (nodeAt g r))"
  let ?vis = "insert (name (nodeAt g r)) (visited s)"
  show ?thesis
  proof (cases "name (nodeAt g r) \<in> visited s")
    case False
    have "?U - ?vis \<subset> ?U - visited s" using False by auto
    with fin have "card (?U - ?vis) < card (?U - visited s)"
      by (intro psubset_card_mono) auto
    then show ?thesis by (simp add: compile_step_Cons[OF st] compile_measure_def)
  next
    case True
    then have eq: "?vis = visited s" by auto
    have "filter (\<lambda>c. name (nodeAt g c) \<in> visited s)
            (rev (filter (ready E g (visited s)) (children (nodeAt g r)))) = []"
      by (auto simp: filter_empty_conv ready_def)
    then show ?thesis using True by (simp add: compile_step_Cons[OF st] compile_measure_def eq st)
  qed
qed

lemma compile_loop_terminates:
  assumes "finite (range (\<lambda>r. name (nodeAt g r)))"
  shows "\<exists>t. while_option (\<lambda>s. stack s \<noteq> []) (compile_step E g) s0 = Some t"
proof (rule wf_rel_while_option_Some[where P = "\<lambda>_. True"
      and R = "inv_image (less_than <*lex*> less_than) (compile_measure g)"])
  show "wf (inv_image (less_than <*lex*> less_than) (compile_measure g))"
    by (intro wf_inv_image wf_lex_prod wf_less_than)
next
  fix s :: compile_state
  assume "True \<and> stack s \<noteq> []"
  then show "(compile_step E g s, s)
      \<in> inv_image (less_than <*lex*> less_than) (compile_measure g)"
    using compile_step_decreases[OF assms] by (simp add: inv_image_def)
qed simp_all

text \<open>The flags that \<^verbatim>\<open>compile\<close> reads before it has written any are the cause of the
  defect shown below. Away from them the loop behaves as its documentation says: when
  no declared input refers to a name that every object inherits, \<^verbatim>\<open>compile\<close> returns
  and every member of the sequence is preceded by the producers of its declared
  inputs.\<close>

lemma compile_dependency_order:
  assumes "\<not> withControlFlow g"
    and "finite (range (\<lambda>r. name (nodeAt g r)))"
    and "\<forall>r \<in> set (inputs g). inputNames (nodeAt g r) = []"
    and own: "\<forall>r. \<forall>nm \<in> set (inputNames (nodeAt g r)).
           fst (getNodeNameAndIndex E nm None) \<notin> Object_prototype_keys"
  shows "\<exists>order. compile E g = Some order \<and> dependency_ordered E g order"
proof -
  let ?s0 = "\<lparr>stack = rev (inputs g), visited = Object_prototype_keys, compiledOrder = []\<rparr>"
  have init: "compile_inv E g ?s0"
    using assms(3) by (simp add: compile_inv_def dependency_ordered_def)
  from compile_loop_terminates[OF assms(2)]
  obtain t where t: "while_option (\<lambda>s. stack s \<noteq> []) (compile_step E g) ?s0 = Some t" ..
  have "compile_inv E g t"
    by (rule while_option_rule[where P = "compile_inv E g", OF _ t init])
       (rule compile_inv_step[OF _ _ own])
  then have "dependency_ordered E g (compiledOrder t)" by (simp add: compile_inv_def)
  with t assms(1) show ?thesis by (simp add: compile_def)
qed

lemma square_graph_compile: "compile example_ext square_graph = Some [0, 1, 2, 1]"
  by (simp add: compile_def square_graph_def example_ext_def while_option_unfold
      compile_step_def pushChild_def Object_prototype_keys_def)

text \<open>
  Claim C1. The claim is that the sequence \<^verbatim>\<open>compile\<close> produces for a graph without
  control flow is a valid topological order: every reachable node appears in it, after
  the producers of its declared inputs. The code does not do this for the graph
  \<^verbatim>\<open>x -> constructor -> y\<close>, in which \<^verbatim>\<open>y\<close> reads \<^verbatim>\<open>x\<close> and \<^verbatim>\<open>constructor\<close>: the flag
  \<^verbatim>\<open>visited['constructor']\<close> is truthy before the loop starts, so the node named
  \<^verbatim>\<open>constructor\<close>, a child of the graph input, is never pushed, while its consumer
  \<^verbatim>\<open>y\<close> passes the test on its inputs and is emitted. The sequence is \<^verbatim>\<open>[x, y]\<close>: a
  reachable node is missing and \<^verbatim>\<open>y\<close> has no producer of its second input before it.
\<close>

theorem compile_omits_inherited_name:
  "\<not> withControlFlow ctor_graph \<and>
   inputs ctor_graph = [0] \<and>
   children (nodeAt ctor_graph 0) = [1, 2] \<and>
   name (nodeAt ctor_graph 1) = ''constructor'' \<and>
   inputNames (nodeAt ctor_graph 1) = [''x''] \<and>
   children (nodeAt ctor_graph 1) = [2] \<and>
   name (nodeAt ctor_graph 2) = ''y'' \<and>
   inputNames (nodeAt ctor_graph 2) = [''x'', ''constructor''] \<and>
   compile example_ext ctor_graph = Some [0, 2]"
  by (simp add: compile_def ctor_graph_def example_ext_def while_option_unfold
      compile_step_def pushChild_def Object_prototype_keys_def)

section \<open>The dynamic scheduler pushes ready children, each name once\<close>

lemma visitChild_eq:
  "visitChild E g tm cx c st =
     (if qualifiedName E g cx c \<notin> fst st \<and> schedulable E g tm cx c
      then (insert (qualifiedName E g cx c) (fst st),
            \<lparr>contexts = currentContext cx, node = c\<rparr> # snd st)
      else st)"
  by (auto simp: visitChild_def qualifiedName_def schedulable_def Let_def)

lemma fold_visitChild:
  "fold (visitChild E g tm cx) cs (A, stk) =
     (A \<union> qualifiedName E g cx ` set (pushedChildren E g tm cx cs A),
      rev (map (\<lambda>c. \<lparr>contexts = currentContext cx, node = c\<rparr>) (pushedChildren E g tm cx cs A))
        @ stk)"
  by (induction cs arbitrary: A stk) (auto simp: visitChild_eq)

lemma pushedChildren_props:
  "distinct (map (qualifiedName E g cx) (pushedChildren E g tm cx cs A)) \<and>
   qualifiedName E g cx ` set (pushedChildren E g tm cx cs A) \<inter> A = {} \<and>
   (\<forall>c \<in> set (pushedChildren E g tm cx cs A). schedulable E g tm cx c)"
proof (induction cs arbitrary: A)
  case Nil
  then show ?case by simp
next
  case (Cons c cs)
  show ?case
  proof (cases "qualifiedName E g cx c \<notin> A \<and> schedulable E g tm cx c")
    case True
    from Cons.IH[of "insert (qualifiedName E g cx c) A"] True show ?thesis by auto
  next
    case False
    from Cons.IH[of A] False show ?thesis by auto
  qed
qed

lemma cf_step_Cons:
  assumes "stack_cf s = item # rest" "cf_step E g s = Inr s'"
  shows "\<exists>tensors cx.
      executeOp E (nodeAt g (node item)) (tensorMap s)
          ((context_cf s)\<lparr>currentContext := contexts item\<rparr>) = Inr (tensors, cx) \<and>
      context_cf s' = cx \<and>
      tensorMap s' = assign (qualifiedName E g cx (node item)) tensors (tensorMap s) \<and>
      added s' = added s \<union> qualifiedName E g cx `
          set (pushedChildren E g (tensorMap s') cx (children (nodeAt g (node item))) (added s)) \<and>
      stack_cf s' =
        rev (map (\<lambda>c. \<lparr>contexts = currentContext cx, node = c\<rparr>)
              (pushedChildren E g (tensorMap s') cx (children (nodeAt g (node item))) (added s)))
        @ rest"
  using assms
  by (auto simp: cf_step_def Let_def fold_visitChild qualifiedName_def split: sum.splits prod.splits)


lemma new_entries_step:
  assumes "stack_cf s = item # rest" "cf_step E g s = Inr s'"
  shows "map node (new_entries s s') =
     pushedChildren E g (tensorMap s') (context_cf s') (children (nodeAt g (node item))) (added s)"
proof -
  from cf_step_Cons[OF assms] obtain tensors cx where
    cx: "context_cf s' = cx" and
    stk: "stack_cf s' =
        rev (map (\<lambda>c. \<lparr>contexts = currentContext cx, node = c\<rparr>)
              (pushedChildren E g (tensorMap s') cx (children (nodeAt g (node item))) (added s)))
        @ rest" by blast
  show ?thesis
    unfolding new_entries_def stk assms(1) cx
    by (simp add: rev_map comp_def)
qed

lemma schedule_log_inv:
  "distinct (map fst (schedule_log E g k s)) \<and>
   fst ` set (schedule_log E g k s) \<inter> added s = {} \<and>
   (\<forall>(q, c, tm, cx) \<in> set (schedule_log E g k s). schedulable E g tm cx c)"
proof (induction k arbitrary: s)
  case 0
  then show ?case by simp
next
  case (Suc k)
  show ?case
  proof (cases "stack_cf s")
    case Nil
    then show ?thesis by simp
  next
    case (Cons item rest)
    show ?thesis
    proof (cases "cf_step E g s")
      case (Inl e)
      with Cons show ?thesis by simp
    next
      case (Inr s')
      let ?P = "pushedChildren E g (tensorMap s') (context_cf s') (children (nodeAt g (node item))) (added s)"
      let ?new = "map (\<lambda>w. (qualifiedName E g (context_cf s') (node w), node w,
                          tensorMap s', context_cf s')) (new_entries s s')"
      have log: "schedule_log E g (Suc k) s = ?new @ schedule_log E g k s'"
        using Cons Inr by simp
      have ne: "map node (new_entries s s') = ?P" by (rule new_entries_step[OF Cons Inr])
      have newq: "map fst ?new = map (qualifiedName E g (context_cf s')) ?P"
        unfolding ne[symmetric] by (simp add: comp_def)
      from cf_step_Cons[OF Cons Inr] obtain tensors cx where
        cxeq: "context_cf s' = cx" and
        add0: "added s' = added s \<union> qualifiedName E g cx `
          set (pushedChildren E g (tensorMap s') cx (children (nodeAt g (node item))) (added s))"
        by blast
      have add: "added s' = added s \<union> qualifiedName E g (context_cf s') ` set ?P"
        using add0 unfolding cxeq .
      note pp = pushedChildren_props[of E g "context_cf s'" "tensorMap s'"
          "children (nodeAt g (node item))" "added s"]
      note ih = Suc.IH[of s']
      from ih have ih1: "distinct (map fst (schedule_log E g k s'))" by (rule conjunct1)
      from ih have ih2: "fst ` set (schedule_log E g k s') \<inter> added s' = {}"
        by (rule conjunct1[OF conjunct2])
      from ih have ih3: "\<forall>(q, c, tm, cx) \<in> set (schedule_log E g k s'). schedulable E g tm cx c"
        by (rule conjunct2[OF conjunct2])
      have d1: "distinct (map fst ?new)" unfolding newq using pp by blast
      have "set (map fst ?new) = set (map (qualifiedName E g (context_cf s')) ?P)"
        by (simp only: newq)
      then have fnew: "fst ` set ?new = qualifiedName E g (context_cf s') ` set ?P"
        by (simp only: set_map)
      have d2: "fst ` set ?new \<inter> fst ` set (schedule_log E g k s') = {}"
        using ih2 add fnew by blast
      have d3: "fst ` set ?new \<inter> added s = {}" using pp fnew by simp
      have d4: "fst ` set (schedule_log E g k s') \<inter> added s = {}" using ih2 add by blast
      have s1: "\<forall>(q, c, tm, cx) \<in> set ?new. schedulable E g tm cx c"
      proof -
        have "set (map node (new_entries s s')) = set ?P" by (simp only: ne)
        then have "\<forall>w \<in> set (new_entries s s'). node w \<in> set ?P" by auto
        with pp show ?thesis by auto
      qed
      have c1: "distinct (map fst (?new @ schedule_log E g k s'))"
        using d1 d2 ih1 by (simp only: map_append distinct_append set_map)
      have c2: "fst ` set (?new @ schedule_log E g k s') \<inter> added s = {}"
        using d3 d4 by (simp only: set_append image_Un) blast
      have c3: "\<forall>(q, c, tm, cx) \<in> set (?new @ schedule_log E g k s'). schedulable E g tm cx c"
        using s1 ih3 by (simp only: set_append ball_Un)
      show ?thesis unfolding log using c1 c2 c3 by blast
    qed
  qed
qed



text \<open>
  Claim C2. Among the pushes that the loop of \<^verbatim>\<open>executeWithControlFlow\<close> makes in any
  number of iterations, no two are marked under the same frame-qualified name, and every
  pushed node that is not a merge had all of its declared inputs resolved to tensors,
  in the environment and under the context of the moment it was pushed.
\<close>

theorem scheduler_pushes_ready_once:
  "distinct (map fst (schedule_log E g k s)) \<and>
   (\<forall>(q, c, tm, cx) \<in> set (schedule_log E g k s).
      op (nodeAt g c) \<noteq> ''merge'' \<longrightarrow>
      (\<forall>nm \<in> set (inputNames (nodeAt g c)). getTensor E nm tm cx \<noteq> None))"
proof (rule conjI)
  from schedule_log_inv[of E g k s]
  show "distinct (map fst (schedule_log E g k s))" by (rule conjunct1)
next
  from schedule_log_inv[of E g k s]
  have r: "\<forall>(q, c, tm, cx) \<in> set (schedule_log E g k s). schedulable E g tm cx c"
    by (rule conjunct2[OF conjunct2])
  show "\<forall>(q, c, tm, cx) \<in> set (schedule_log E g k s).
      op (nodeAt g c) \<noteq> ''merge'' \<longrightarrow>
      (\<forall>nm \<in> set (inputNames (nodeAt g c)). getTensor E nm tm cx \<noteq> None)"
  proof (rule ballI)
    fix x assume x: "x \<in> set (schedule_log E g k s)"
    obtain q c tm cx where e: "x = (q, c, tm, cx)" by (cases x)
    from r x e have "schedulable E g tm cx c" by fastforce
    then show "case x of (q, c, tm, cx) \<Rightarrow>
        op (nodeAt g c) \<noteq> ''merge'' \<longrightarrow>
        (\<forall>nm \<in> set (inputNames (nodeAt g c)). getTensor E nm tm cx \<noteq> None)"
      unfolding e by (auto simp: schedulable_def)
  qed
qed

lemma merge_log:
  "map (\<lambda>p. (fst p, fst (snd p)))
     (schedule_log example_ext merge_graph 4
        (cf_init merge_executor [(''x'', [Some (example_tensor 1)])] root_context))
   = [(''a'', 1), (''m'', 2), (''y'', 3)]"
  by (simp add: cf_init_def merge_executor_def merge_graph_def example_ext_def root_context_def
      spread_def cf_step_def visitChild_def new_entries_def qualifiedName_def example_tensor_def
      elem_def numeral_nat Let_def)


theorem scheduler_pushes_ready_once_witness:
  "map (\<lambda>p. (fst p, fst (snd p)))
     (schedule_log example_ext merge_graph 4
        (cf_init merge_executor [(''x'', [Some (example_tensor 1)])] root_context))
     = [(''a'', 1), (''m'', 2), (''y'', 3)] \<and>
   op (nodeAt merge_graph 1) \<noteq> ''merge'' \<and>
   distinct (map fst (schedule_log example_ext merge_graph 4
        (cf_init merge_executor [(''x'', [Some (example_tensor 1)])] root_context))) \<and>
   list_all (\<lambda>(q, c, tm, cx). op (nodeAt merge_graph c) = ''merge'' \<or>
               list_all (\<lambda>nm. getTensor example_ext nm tm cx \<noteq> None)
                 (inputNames (nodeAt merge_graph c)))
     (schedule_log example_ext merge_graph 4
        (cf_init merge_executor [(''x'', [Some (example_tensor 1)])] root_context))"
proof -
  let ?L = "schedule_log example_ext merge_graph 4
        (cf_init merge_executor [(''x'', [Some (example_tensor 1)])] root_context)"
  note t = scheduler_pushes_ready_once[of example_ext merge_graph 4
      "cf_init merge_executor [(''x'', [Some (example_tensor 1)])] root_context"]
  from t have d: "distinct (map fst ?L)" by (rule conjunct1)
  from t have "\<forall>(q, c, tm, cx) \<in> set ?L.
      op (nodeAt merge_graph c) \<noteq> ''merge'' \<longrightarrow>
      (\<forall>nm \<in> set (inputNames (nodeAt merge_graph c)). getTensor example_ext nm tm cx \<noteq> None)"
    by (rule conjunct2)
  then have r: "list_all (\<lambda>(q, c, tm, cx). op (nodeAt merge_graph c) = ''merge'' \<or>
               list_all (\<lambda>nm. getTensor example_ext nm tm cx \<noteq> None)
                 (inputNames (nodeAt merge_graph c))) ?L"
    unfolding list_all_iff by fast
  have o: "op (nodeAt merge_graph 1) \<noteq> ''merge''" by (simp add: merge_graph_def)
  from merge_log d r o show ?thesis by (intro conjI)
qed





section \<open>Release of the intermediate tensors\<close>

lemma set_defined: "set (defined ts) = {x. Some x \<in> set ts}"
  by (induction ts rule: defined.induct) auto

lemma those_defined: "those ts = Some ys \<Longrightarrow> defined ts = ys"
  by (induction ts arbitrary: ys rule: defined.induct) (auto split: option.splits)

lemma tensor_ids_set:
  "tensor_ids site ts = Inr xs \<Longrightarrow> set xs = id_t ` set (defined ts)"
  by (auto simp: tensor_ids_def split: option.splits dest!: those_defined)

lemma all_tensor_ids_set:
  "all_tensor_ids site m = Inr xs \<Longrightarrow> set xs = id_t ` set (env_tensors m)"
proof (induction m arbitrary: xs)
  case Nil
  then show ?case by (simp add: env_tensors_def)
next
  case (Cons p m)
  obtain k ts where p: "p = (k, ts)" by (cases p)
  from Cons.prems p obtain ys zs where
    y: "tensor_ids site ts = Inr ys" and z: "all_tensor_ids site m = Inr zs" and x: "xs = ys @ zs"
    by (auto split: sum.splits)
  from tensor_ids_set[OF y] Cons.IH[OF z] x p show ?case
    by (simp add: env_tensors_def image_Un)
qed

lemma result_ids_set:
  "result_ids results = Inr xs \<Longrightarrow> set xs = id_t ` set (result_tensors results)"
  unfolding result_ids_def result_tensors_def
  by (rule tensor_ids_set)

lemma fold_disposeStep_Inl: "fold (disposeStep os is w) ts (Inl e) = Inl e"
  by (induction ts) (simp_all add: disposeStep_def)

lemma fold_disposeStep:
  "fold (disposeStep os is w) ts (Inr d0) = Inr d \<Longrightarrow>
     set d = set d0 \<union> {t. Some t \<in> set ts \<and> id_t t \<notin> set os \<and> id_t t \<notin> set is
                              \<and> id_t t \<notin> id_set w}"
proof (induction ts arbitrary: d0)
  case Nil
  then show ?case by simp
next
  case (Cons t ts)
  show ?case
  proof (cases "disposeStep os is w t (Inr d0)")
    case (Inl e)
    with Cons.prems show ?thesis by (simp add: fold_disposeStep_Inl)
  next
    case (Inr d1)
    with Cons.prems have "fold (disposeStep os is w) ts (Inr d1) = Inr d" by simp
    from Cons.IH[OF this] have d: "set d = set d1 \<union> {t. Some t \<in> set ts \<and> id_t t \<notin> set os
        \<and> id_t t \<notin> set is \<and> id_t t \<notin> id_set w}" .
    from Inr have "set d1 = set d0 \<union> {x. t = Some x \<and> id_t x \<notin> set os \<and> id_t x \<notin> set is
        \<and> id_t x \<notin> id_set w}"
      by (auto simp: disposeStep_def id_set_def split: option.splits if_splits)
    with d show ?thesis by auto
  qed
qed

lemma fold_dispose_outer_Inl:
  "fold (\<lambda>(key, tensorArray) acc. fold (disposeStep os is w) tensorArray acc) tm (Inl e) = Inl e"
  by (induction tm) (auto simp: fold_disposeStep_Inl)

lemma fold_dispose_outer:
  "fold (\<lambda>(key, tensorArray) acc. fold (disposeStep os is w) tensorArray acc) tm (Inr d0) = Inr d
   \<Longrightarrow> set d = set d0 \<union> {t \<in> set (env_tensors tm). id_t t \<notin> set os \<and> id_t t \<notin> set is
                              \<and> id_t t \<notin> id_set w}"
proof (induction tm arbitrary: d0)
  case Nil
  then show ?case by (simp add: env_tensors_def)
next
  case (Cons p tm)
  obtain k ts where p: "p = (k, ts)" by (cases p)
  show ?case
  proof (cases "fold (disposeStep os is w) ts (Inr d0)")
    case (Inl e)
    with Cons.prems p show ?thesis by (simp add: fold_dispose_outer_Inl)
  next
    case (Inr d1)
    with Cons.prems p have
      "fold (\<lambda>(key, tensorArray) acc. fold (disposeStep os is w) tensorArray acc) tm (Inr d1) = Inr d"
      by simp
    from Cons.IH[OF this] fold_disposeStep[OF Inr] p show ?thesis
      by (auto simp: env_tensors_def set_defined)
  qed
qed

lemma disposeIntermediates_set:
  "disposeIntermediates os is w tm = Inr d \<Longrightarrow>
     set d = {t \<in> set (env_tensors tm). id_t t \<notin> set os \<and> id_t t \<notin> set is \<and> id_t t \<notin> id_set w}"
  unfolding disposeIntermediates_def by (drule fold_dispose_outer) simp

text \<open>
  Claim C4. When \<^verbatim>\<open>executeAsync\<close> returns, every tensor of the final environment whose
  identifier is not that of a returned output, of a supplied input tensor or of a weight
  tensor has been disposed, and every disposed tensor is a tensor of the environment
  that is neither a returned output nor an input nor a weight: outputs, inputs and
  weights are disposed zero times.
\<close>

theorem executeAsync_releases_intermediates:
  assumes "set_weightMap wm ex0 = Inr ex"
    and "executeAsync E ex inputTensors outs = Some (Inr (results, disposed))"
  shows "\<exists>tensors cx.
     executeWithControlFlow E ex inputTensors (newExecutionContext E (weightMap ex))
       = Some (Inr (tensors, cx)) \<and>
     results = findOutputs E (graph_x ex) tensors cx outs \<and>
     (\<forall>t \<in> set (env_tensors tensors).
        id_t t \<notin> id_t ` set (result_tensors results) \<and>
        id_t t \<notin> id_t ` set (env_tensors inputTensors) \<and>
        id_t t \<notin> id_t ` set (env_tensors wm) \<longrightarrow> t \<in> set disposed) \<and>
     (\<forall>t \<in> set disposed.
        t \<in> set (env_tensors tensors) \<and> t \<notin> set (result_tensors results) \<and>
        t \<notin> set (env_tensors inputTensors) \<and> t \<notin> set (env_tensors wm))"
proof -
  from assms(1) obtain ids where
    ids: "all_tensor_ids ''tensor.id'' wm = Inr ids" and
    ex: "ex = ex0\<lparr>weightIds := Some ids, weightMap := wm\<rparr>"
    by (auto simp: set_weightMap_def split: sum.splits)
  from ex have w: "weightIds ex = Some ids" by simp
  from assms(2) obtain tensors cx outputIds inputIds where
    run: "executeWithControlFlow E ex inputTensors (newExecutionContext E (weightMap ex))
            = Some (Inr (tensors, cx))" and
    res: "results = findOutputs E (graph_x ex) tensors cx outs" and
    o: "result_ids results = Inr outputIds" and
    i: "all_tensor_ids ''input.id'' inputTensors = Inr inputIds" and
    d: "disposeIntermediates outputIds inputIds (weightIds ex) tensors = Inr disposed"
    by (auto simp: executeAsync_def Let_def split: option.splits sum.splits prod.splits)
  from disposeIntermediates_set[OF d] w
  have "set disposed = {t \<in> set (env_tensors tensors).
      id_t t \<notin> set outputIds \<and> id_t t \<notin> set inputIds \<and> id_t t \<notin> set ids}"
    by (simp add: id_set_def)
  then have s: "set disposed = {t \<in> set (env_tensors tensors).
      id_t t \<notin> id_t ` set (result_tensors results) \<and>
      id_t t \<notin> id_t ` set (env_tensors inputTensors) \<and>
      id_t t \<notin> id_t ` set (env_tensors wm)}"
    by (simp only: result_ids_set[OF o] all_tensor_ids_set[OF i] all_tensor_ids_set[OF ids])
  have a: "\<forall>t \<in> set (env_tensors tensors).
        id_t t \<notin> id_t ` set (result_tensors results) \<and>
        id_t t \<notin> id_t ` set (env_tensors inputTensors) \<and>
        id_t t \<notin> id_t ` set (env_tensors wm) \<longrightarrow> t \<in> set disposed"
    unfolding s by blast
  have b: "\<forall>t \<in> set disposed.
        t \<in> set (env_tensors tensors) \<and> t \<notin> set (result_tensors results) \<and>
        t \<notin> set (env_tensors inputTensors) \<and> t \<notin> set (env_tensors wm)"
    unfolding s by blast
  from run res a b show ?thesis by blast
qed


lemma merge_executor_new:
  "GraphExecutor_new example_ext merge_graph = Some (Inr merge_executor0)"
  by (simp add: GraphExecutor_new_def compile_def merge_graph_def merge_executor0_def
      example_ext_def)

lemma merge_executor_weights:
  "set_weightMap [(''w'', [Some (example_tensor 2)])] merge_executor0 = Inr merge_executor"
  by (simp add: set_weightMap_def tensor_ids_def merge_executor0_def merge_executor_def
      example_tensor_def)

lemma merge_executeAsync:
  "executeAsync example_ext merge_executor [(''x'', [Some (example_tensor 1)])]
     (OutputNames [''y'', ''x''])
   = Some (Inr ([(''y'', Some (example_tensor 104)), (''x'', Some (example_tensor 1))],
                [example_tensor 102, example_tensor 103]))"
  by (simp add: executeAsync_def executeWithControlFlow_def cf_init_def cf_loop.simps
      cf_step_def visitChild_def merge_executor_def merge_graph_def example_ext_def spread_def
      example_tensor_def elem_def findOutputs_def result_ids_def tensor_ids_def
      disposeIntermediates_def disposeStep_def Let_def)

theorem executeAsync_releases_intermediates_witness:
  "set_weightMap [(''w'', [Some (example_tensor 2)])] merge_executor0 = Inr merge_executor \<and>
   executeAsync example_ext merge_executor [(''x'', [Some (example_tensor 1)])]
     (OutputNames [''y'', ''x''])
   = Some (Inr ([(''y'', Some (example_tensor 104)), (''x'', Some (example_tensor 1))],
                [example_tensor 102, example_tensor 103])) \<and>
   list_all (\<lambda>t. t \<notin> set (result_tensors [(''y'', Some (example_tensor 104)),
                                              (''x'', Some (example_tensor 1))]) \<and>
                 t \<notin> set (env_tensors [(''x'', [Some (example_tensor 1)])]) \<and>
                 t \<notin> set (env_tensors [(''w'', [Some (example_tensor 2)])]))
     [example_tensor 102, example_tensor 103]"
proof -
  from executeAsync_releases_intermediates[OF merge_executor_weights merge_executeAsync]
  have "\<forall>t \<in> set [example_tensor 102, example_tensor 103].
      t \<notin> set (result_tensors [(''y'', Some (example_tensor 104)),
                                 (''x'', Some (example_tensor 1))]) \<and>
      t \<notin> set (env_tensors [(''x'', [Some (example_tensor 1)])]) \<and>
      t \<notin> set (env_tensors [(''w'', [Some (example_tensor 2)])])"
    by blast
  then have "list_all (\<lambda>t. t \<notin> set (result_tensors [(''y'', Some (example_tensor 104)),
                                              (''x'', Some (example_tensor 1))]) \<and>
                 t \<notin> set (env_tensors [(''x'', [Some (example_tensor 1)])]) \<and>
                 t \<notin> set (env_tensors [(''w'', [Some (example_tensor 2)])]))
     [example_tensor 102, example_tensor 103]"
    unfolding list_all_iff .
  with merge_executor_weights merge_executeAsync show ?thesis by (intro conjI)
qed

section \<open>Validation of the supplied inputs\<close>

text \<open>\<^verbatim>\<open>execute\<close> validates first: an error of \<^verbatim>\<open>checkInput\<close> is the result of the call,
  and it lists all missing names, or else all extra names.\<close>

lemma execute_checks_input:
  assumes "checkInput ex inputTensors = Inl e"
  shows "execute E ex inputTensors outs = Inl e"
  using assms by (simp add: execute_def bindE_def)

lemma checkInput_missing:
  assumes "filter (\<lambda>nm. nm \<notin> fst ` set inputTensors) (placeholders_x ex) \<noteq> []"
  shows "checkInput ex inputTensors =
     Inl (Error (''Missing input placeholders: '' @
          joinComma (filter (\<lambda>nm. nm \<notin> fst ` set inputTensors) (placeholders_x ex))))"
  using assms by (simp add: checkInput_def Let_def)

lemma checkInput_extra:
  assumes "filter (\<lambda>nm. nm \<notin> fst ` set inputTensors) (placeholders_x ex) = []"
    and "filter (\<lambda>nm. nm \<notin> set (placeholders_x ex)) (map fst inputTensors) \<noteq> []"
  shows "checkInput ex inputTensors =
     Inl (Error (''Extra input tensors: '' @
          joinComma (filter (\<lambda>nm. nm \<notin> set (placeholders_x ex)) (map fst inputTensors))))"
  using assms by (simp add: checkInput_def Let_def)

text \<open>
  Claim C5 fails for \<^verbatim>\<open>executeAsync\<close>, which never calls \<^verbatim>\<open>checkInput\<close>: with an input
  that is not a placeholder the call runs the graph and returns normally, and with the
  placeholder missing it runs the placeholder node and fails later with an error that
  does not name the missing key, where \<^verbatim>\<open>execute\<close> rejects both inputs up front.
\<close>

theorem executeAsync_skips_checkInput:
  "execute example_ext merge_executor
      [(''x'', [Some (example_tensor 1)]), (''extra'', [Some (example_tensor 5)])] OutputsUndefined
     = Inl (Error ''Extra input tensors: extra'') \<and>
   executeAsync example_ext merge_executor
      [(''x'', [Some (example_tensor 1)]), (''extra'', [Some (example_tensor 5)])] OutputsUndefined
     = Some (Inr ([(''y'', Some (example_tensor 105))],
                  [example_tensor 103, example_tensor 104])) \<and>
   execute example_ext merge_executor [] OutputsUndefined
     = Inl (Error ''Missing input placeholders: x'') \<and>
   executeAsync example_ext merge_executor [] OutputsUndefined
     = Some (Inl (TypeError ''results[key].id''))"
proof -
  have a: "execute example_ext merge_executor
      [(''x'', [Some (example_tensor 1)]), (''extra'', [Some (example_tensor 5)])] OutputsUndefined
     = Inl (Error ''Extra input tensors: extra'')"
    by (simp add: execute_def checkInput_def bindE_def merge_executor_def)
  have b: "executeAsync example_ext merge_executor
      [(''x'', [Some (example_tensor 1)]), (''extra'', [Some (example_tensor 5)])] OutputsUndefined
     = Some (Inr ([(''y'', Some (example_tensor 105))],
                  [example_tensor 103, example_tensor 104]))"
    by (simp add: executeAsync_def executeWithControlFlow_def cf_init_def cf_loop.simps
      cf_step_def visitChild_def merge_executor_def merge_graph_def example_ext_def spread_def
      example_tensor_def elem_def findOutputs_def result_ids_def tensor_ids_def
      disposeIntermediates_def disposeStep_def Let_def)
  have c: "execute example_ext merge_executor [] OutputsUndefined
     = Inl (Error ''Missing input placeholders: x'')"
    by (simp add: execute_def checkInput_def bindE_def merge_executor_def)
  have d: "executeAsync example_ext merge_executor [] OutputsUndefined
     = Some (Inl (TypeError ''results[key].id''))"
    by (simp add: executeAsync_def executeWithControlFlow_def cf_init_def cf_loop.simps
      cf_step_def visitChild_def merge_executor_def merge_graph_def example_ext_def spread_def
      example_tensor_def elem_def findOutputs_def result_ids_def tensor_ids_def
      disposeIntermediates_def disposeStep_def Let_def)
  from a b c d show ?thesis by (intro conjI)
qed

section \<open>Accelerated compilation: skipped operators\<close>

lemma bindE_simps [simp]: "bindE (Inl e) f = Inl e" "bindE (Inr x) f = f x"
  by (simp_all add: bindE_def)

lemma compileNodes_append:
  "compileNodes E g tmap cx (xs @ ys) st =
     bindE (compileNodes E g tmap cx xs st) (compileNodes E g tmap cx ys)"
proof (induction xs arbitrary: st)
  case Nil
  then show ?case by simp
next
  case (Cons r xs)
  show ?case
    by (cases "compileNode E g tmap cx (nodeAt g r) st") (simp_all add: Cons.IH)
qed

text \<open>
  Claim C8. A node whose operator is none of \<^verbatim>\<open>placeholder\<close>, \<^verbatim>\<open>const\<close>, \<^verbatim>\<open>conv2d\<close>,
  \<^verbatim>\<open>depthwiseConv2d\<close>, \<^verbatim>\<open>avgPool\<close>, \<^verbatim>\<open>squeeze\<close>, \<^verbatim>\<open>softmax\<close> leaves the state of the
  compilation as it is: no operand and no operation is added and no error is raised,
  and compiling a sequence that contains the node gives what compiling the sequence
  without it gives.
\<close>

theorem unsupported_op_skipped:
  assumes "op (nodeAt g r) \<notin> {''placeholder'', ''const'', ''conv2d'', ''depthwiseConv2d'',
                                ''avgPool'', ''squeeze'', ''softmax''}"
  shows "compileNode E g tmap cx (nodeAt g r) st = Inr st \<and>
         compileNodes E g tmap cx (pre @ r # post) st0 = compileNodes E g tmap cx (pre @ post) st0"
proof -
  have skip: "\<And>st. compileNode E g tmap cx (nodeAt g r) st = Inr st"
    using assms by (simp add: compileNode_def)
  have "compileNodes E g tmap cx (pre @ r # post) st0 = compileNodes E g tmap cx (pre @ post) st0"
    by (cases "compileNodes E g tmap cx pre st0") (simp_all add: compileNodes_append skip)
  with skip show ?thesis by simp
qed

lemma squeeze_executor_new:
  "GraphExecutor_new example_ext squeeze_graph = Some (Inr squeeze_executor)"
  by (simp add: GraphExecutor_new_def compile_def squeeze_graph_def squeeze_executor_def
      example_ext_def while_option_unfold compile_step_def pushChild_def
      Object_prototype_keys_def)

lemmas accel_defs = accel_ext_def example_ext_def squeeze_graph_def squeeze_executor_def
  squeeze_inputs_def squeeze_state_def

lemmas compile_defs = compileNode_def compilePlaceholder_def compileConst_def compileConv_def
  compileAvgPool_def compileSqueeze_def compileSoftmax_def deref_def idx_def elem_def key_of_def
  addOperand_def setOperandValue_def addOperation_def addScalarInt32_def addScalarFloat32_def
  padScalar_def fuseCodeOf_def convFusion_def markVisited_def toInt32_def indexNumbers_def
  arraysEqual_def toUpperCase_def upperChar_def spread_def Let_def

lemma squeeze_state_reached:
  "compileNodes accel_ext squeeze_graph (spread [] squeeze_inputs)
     (newExecutionContext accel_ext []) [0]
     (squeeze_executor\<lparr>model := []\<rparr>, Object_prototype_keys) = Inr squeeze_state"
  by (simp add: accel_defs compile_defs)

theorem unsupported_op_skipped_witness:
  "op (nodeAt squeeze_graph 2) = ''identity'' \<and>
   compileNode accel_ext squeeze_graph squeeze_inputs (newExecutionContext accel_ext [])
     (nodeAt squeeze_graph 2) squeeze_state = Inr squeeze_state \<and>
   compileNodes accel_ext squeeze_graph squeeze_inputs (newExecutionContext accel_ext [])
     [0, 1, 3, 2] (squeeze_executor, Object_prototype_keys)
   = compileNodes accel_ext squeeze_graph squeeze_inputs (newExecutionContext accel_ext [])
     [0, 1, 3] (squeeze_executor, Object_prototype_keys)"
proof -
  have o: "op (nodeAt squeeze_graph 2) = ''identity''" by (simp add: squeeze_graph_def)
  then have h: "op (nodeAt squeeze_graph 2) \<notin> {''placeholder'', ''const'', ''conv2d'',
      ''depthwiseConv2d'', ''avgPool'', ''squeeze'', ''softmax''}" by simp
  from unsupported_op_skipped[OF h, of accel_ext squeeze_inputs "newExecutionContext accel_ext []"
      squeeze_state "[0, 1, 3]" "[]" "(squeeze_executor, Object_prototype_keys)"] o
  show ?thesis by simp
qed

section \<open>Accelerated compilation: the squeeze\<close>

lemma fold_squeezeStep:
  "fold (squeezeStep axis) (zip xs [k ..< k + length xs]) acc = acc @ drop (length axis - k) xs"
proof (induction xs arbitrary: k acc)
  case Nil
  then show ?case by simp
next
  case (Cons x xs)
  have "[k ..< k + length (x # xs)] = k # [Suc k ..< Suc k + length xs]"
    by (simp del: upt_Suc add: upt_conv_Cons)
  then have z: "zip (x # xs) [k ..< k + length (x # xs)]
      = (x, k) # zip xs [Suc k ..< Suc k + length xs]"
    by (simp only: zip_Cons_Cons)
  have "fold (squeezeStep axis) (zip (x # xs) [k ..< k + length (x # xs)]) acc
      = fold (squeezeStep axis) (zip xs [Suc k ..< Suc k + length xs]) (squeezeStep axis (x, k) acc)"
    by (simp only: z fold_simps comp_apply)
  also have "\<dots> = squeezeStep axis (x, k) acc @ drop (length axis - Suc k) xs"
    by (rule Cons.IH)
  also have "\<dots> = acc @ drop (length axis - k) (x # xs)"
  proof (cases "k < length axis")
    case True
    then have "length axis - k = Suc (length axis - Suc k)" by simp
    with True show ?thesis by (simp add: squeezeStep_def inArray_def)
  next
    case False
    then show ?thesis by (simp add: squeezeStep_def inArray_def)
  qed
  finally show ?case .
qed

lemma squeezeShape_drop: "squeezeShape axis inputShape = drop (length axis) inputShape"
  using fold_squeezeStep[of axis inputShape 0 "[]"] by (simp add: squeezeShape_def)

text \<open>
  Claim C10. For a squeeze node with axis parameter \<open>a\<close> whose input operand is known:
  when the shape of that operand is an array, the shape computed by the \<^verbatim>\<open>reduce\<close> is
  the input shape without its first \<open>length a\<close> dimensions (positions 0 to
  \<open>length a - 1\<close>), whatever the values in \<open>a\<close>; it is the value of the emitted shape
  operand, the shape recorded for the node and the dimensions of its output operand.
  When the shape of the input operand is \<^verbatim>\<open>undefined\<close>, the \<^verbatim>\<open>reduce\<close> throws.
\<close>

theorem squeeze_drops_leading_dimensions:
  assumes "op n = ''squeeze''"
    and "name n \<notin> snd st"
    and "operandInfos (fst st) (key_of (idx (inputNames n) 0)) = Some input"
    and "params n ''axis'' = Some (PNumbers a)"
  shows
    "case shape input of
       None \<Rightarrow> compileNode E g tmap cx n st = Inl (TypeError ''inputShape.reduce'')
     | Some inputShape \<Rightarrow>
         squeezeShape a inputShape = drop (length a) inputShape \<and>
         (\<exists>ex'. compileNode E g tmap cx n st = Inr (ex', insert (name n) (snd st)) \<and>
            operandInfos ex' (name n) =
              Some \<lparr>index = operandIndex (fst st) + 1, dtype = dtype input,
                    shape = Some (drop (length a) inputShape)\<rparr> \<and>
            model ex' = model (fst st) @
              [AddOperand (TENSOR_INT32 (nn E)) (Some [int (length (drop (length a) inputShape))]),
               SetOperandValue (operandIndex (fst st))
                 (Int32Array (map (\<lambda>v. toInt32 (Some v)) (drop (length a) inputShape))),
               AddOperand (TENSOR_FLOAT32 (nn E)) (Some (drop (length a) inputShape)),
               AddOperation (RESHAPE (nn E)) [Some (index input), Some (operandIndex (fst st))]
                 [operandIndex (fst st) + 1]])"
  using assms
  by (simp add: compileNode_def compileSqueeze_def deref_def readOperand_def shape_of_def
      index_of_def dtype_of_def squeezeShape_drop Let_def addOperand_def setOperandValue_def
      addOperation_def split: option.splits)


theorem squeeze_drops_leading_dimensions_witness:
  "op (nodeAt squeeze_graph 1) = ''squeeze'' \<and>
   name (nodeAt squeeze_graph 1) \<notin> snd squeeze_state \<and>
   operandInfos (fst squeeze_state) (key_of (idx (inputNames (nodeAt squeeze_graph 1)) 0))
     = Some \<lparr>index = 0, dtype = Some ''float32'', shape = Some [1, 1, 1, 3]\<rparr> \<and>
   params (nodeAt squeeze_graph 1) ''axis'' = Some (PNumbers [1, 2]) \<and>
   squeezeShape [1, 2] [1, 1, 1, 3] = [1, 3] \<and>
   map_sum (\<lambda>e. e) (\<lambda>st. (operandInfos (fst st) ''sq'', snd st))
     (compileNode accel_ext squeeze_graph squeeze_inputs (newExecutionContext accel_ext [])
        (nodeAt squeeze_graph 1) squeeze_state)
   = Inr (Some \<lparr>index = 2, dtype = Some ''float32'', shape = Some [1, 3]\<rparr>,
          insert ''sq'' (insert ''x'' Object_prototype_keys))"
proof -
  have h1: "op (nodeAt squeeze_graph 1) = ''squeeze''" by (simp add: squeeze_graph_def)
  have h2: "name (nodeAt squeeze_graph 1) \<notin> snd squeeze_state"
    by (simp add: squeeze_graph_def squeeze_state_def)
  have h3: "operandInfos (fst squeeze_state) (key_of (idx (inputNames (nodeAt squeeze_graph 1)) 0))
     = Some \<lparr>index = 0, dtype = Some ''float32'', shape = Some [1, 1, 1, 3]\<rparr>"
    by (simp add: squeeze_graph_def squeeze_state_def key_of_def idx_def)
  have h4: "params (nodeAt squeeze_graph 1) ''axis'' = Some (PNumbers [1, 2])"
    by (simp add: squeeze_graph_def)
  have n: "name (nodeAt squeeze_graph 1) = ''sq''" by (simp add: squeeze_graph_def)
  have i: "operandIndex (fst squeeze_state) = 1" by (simp add: squeeze_state_def)
  have v: "snd squeeze_state = insert ''x'' Object_prototype_keys"
    by (simp add: squeeze_state_def)
  note t = squeeze_drops_leading_dimensions[OF h1 h2 h3 h4, of accel_ext squeeze_graph
      squeeze_inputs "newExecutionContext accel_ext []", unfolded n i v]
  from t have s: "squeezeShape [1, 2] [1, 1, 1, 3] = [1, 3]" by simp
  from t have "map_sum (\<lambda>e. e) (\<lambda>st. (operandInfos (fst st) ''sq'', snd st))
     (compileNode accel_ext squeeze_graph squeeze_inputs (newExecutionContext accel_ext [])
        (nodeAt squeeze_graph 1) squeeze_state)
   = Inr (Some \<lparr>index = 2, dtype = Some ''float32'', shape = Some [1, 3]\<rparr>,
          insert ''sq'' (insert ''x'' Object_prototype_keys))"
    by auto
  with h1 h2 h3 h4 s show ?thesis by (intro conjI)
qed

section \<open>Accelerated compilation: unsupported parameter values\<close>

lemmas conv_defs = example_ext_def conv_graph_def conv_executor_def conv_inputs_def
  conv_tmap_def conv_state_def

lemma conv_executor_new:
  "map_option (map_sum (\<lambda>e. e) compiledOrder_x)
     (GraphExecutor_new example_ext (conv_graph pad df dil childOp))
   = Some (Inr (compiledOrder_x (conv_executor pad df dil childOp)))"
  by (simp add: GraphExecutor_new_def compile_def conv_graph_def conv_executor_def
      example_ext_def while_option_unfold compile_step_def pushChild_def)

lemma conv_state_reached:
  "compileNodes example_ext (conv_graph pad df dil childOp) conv_tmap
     (newExecutionContext example_ext (weightMap (conv_executor pad df dil childOp)))
     [2, 1, 0] ((conv_executor pad df dil childOp)\<lparr>model := []\<rparr>, Object_prototype_keys)
   = Inr (conv_state pad df dil childOp)"
  by (simp add: conv_defs compile_defs insert_commute numeral_2_eq_2 numeral_3_eq_3)

text \<open>
  Claim C7 fails for dilations: the comparison of \<^verbatim>\<open>dilations\<close> with \<^verbatim>\<open>[1, 1, 1, 1]\<close>
  guards an empty block, and a convolution with dilations \<^verbatim>\<open>[1, 2, 2, 1]\<close> compiles.
\<close>

theorem dilation_not_rejected:
  "\<not> isl (compileWebMLModel example_ext (conv_executor ''same'' ''NHWC'' [1, 2, 2, 1] ''add'')
            conv_inputs)"
  by (simp add: compileWebMLModel_def conv_defs compile_defs)


lemma conv_pad_error:
  assumes "op n = ''conv2d'' \<or> op n = ''depthwiseConv2d''"
    and "name n \<notin> snd st"
    and "conv_reaches_parameters g n (fst st)"
    and "getParamValue E ''pad'' n tmap cx \<noteq> PString ''same''"
    and "getParamValue E ''pad'' n tmap cx \<noteq> PString ''valid''"
  shows "compileNode E g tmap cx n st =
     Inl (Error (''padding '' @ jsString (getParamValue E ''pad'' n tmap cx) @ '' is not supported''))"
proof -
  from assms(3) obtain b relu input filter bias where
    f: "convFusion g n = Inr (Some b, relu)" and
    i: "operandInfos (fst st) (key_of (idx (inputNames n) 0)) = Some input" and
    k: "operandInfos (fst st) (key_of (idx (inputNames n) 1)) = Some filter" and
    c: "operandInfos (fst st) (key_of (idx (inputNames b) 1)) = Some bias"
    by (auto simp: conv_reaches_parameters_def split: sum.splits prod.splits option.splits)
  have "compileConv E g tmap cx n st =
     Inl (Error (''padding '' @ jsString (getParamValue E ''pad'' n tmap cx) @ '' is not supported''))"
    using assms(4,5) f i k c by (simp add: compileConv_def deref_def padScalar_def Let_def)
  with assms(1,2) show ?thesis by (auto simp: compileNode_def)
qed

lemma pool_pad_error:
  assumes "op n = ''avgPool''"
    and "name n \<notin> snd st"
    and "pool_reaches_parameters n (fst st)"
    and "getParamValue E ''pad'' n tmap cx \<noteq> PString ''same''"
    and "getParamValue E ''pad'' n tmap cx \<noteq> PString ''valid''"
  shows "compileNode E g tmap cx n st =
     Inl (Error (''padding '' @ jsString (getParamValue E ''pad'' n tmap cx) @ '' is not supported''))"
proof -
  from assms(3) obtain c0 input where
    f: "idx (children n) 0 = Some c0" and
    i: "operandInfos (fst st) (key_of (idx (inputNames n) 0)) = Some input"
    by (auto simp: pool_reaches_parameters_def idx_def)
  have "compileAvgPool E g tmap cx n st =
     Inl (Error (''padding '' @ jsString (getParamValue E ''pad'' n tmap cx) @ '' is not supported''))"
    using assms(4,5) f i by (simp add: compileAvgPool_def deref_def padScalar_def Let_def)
  with assms(1,2) show ?thesis by (simp add: compileNode_def)
qed

lemma conv_dataFormat_error:
  assumes "op n = ''conv2d'' \<or> op n = ''depthwiseConv2d''"
    and "name n \<notin> snd st"
    and "conv_reaches_parameters g n (fst st)"
    and "getParamValue E ''pad'' n tmap cx = PString ''same'' \<or>
         getParamValue E ''pad'' n tmap cx = PString ''valid''"
    and "getParamValue E ''strides'' n tmap cx \<noteq> PUndefined"
    and "getParamValue E ''dataFormat'' n tmap cx = PString df"
    and "map upperChar df \<noteq> ''NHWC''"
  shows "compileNode E g tmap cx n st =
     Inl (Error (''dataFormat '' @ map upperChar df @ '' is not supported''))"
proof -
  from assms(3) obtain b relu input filter bias where
    f: "convFusion g n = Inr (Some b, relu)" and
    i: "operandInfos (fst st) (key_of (idx (inputNames n) 0)) = Some input" and
    k: "operandInfos (fst st) (key_of (idx (inputNames n) 1)) = Some filter" and
    c: "operandInfos (fst st) (key_of (idx (inputNames b) 1)) = Some bias"
    by (auto simp: conv_reaches_parameters_def split: sum.splits prod.splits option.splits)
  from assms(4) obtain padIndex ex1 where
    p: "padScalar E (getParamValue E ''pad'' n tmap cx) (fst st) = Inr (padIndex, ex1)"
    by (cases "addScalarInt32 E (Some (PADDING_SAME (nn E))) (fst st)";
        cases "addScalarInt32 E (Some (PADDING_VALID (nn E))) (fst st)")
       (auto simp: padScalar_def)
  from assms(5) obtain s1 s2 where
    s1: "indexNumbers ''strides[1]'' (getParamValue E ''strides'' n tmap cx) 1 = Inr s1" and
    s2: "indexNumbers ''strides[2]'' (getParamValue E ''strides'' n tmap cx) 2 = Inr s2"
    by (cases "getParamValue E ''strides'' n tmap cx") (auto simp: indexNumbers_def)
  have "compileConv E g tmap cx n st =
     Inl (Error (''dataFormat '' @ map upperChar df @ '' is not supported''))"
    using assms(6,7) f i k c p s1 s2
    by (simp add: compileConv_def deref_def toUpperCase_def Let_def split: prod.splits)
  with assms(1,2) show ?thesis by (auto simp: compileNode_def)
qed

lemma compileWebMLModel_abort:
  assumes "\<not> compiledWebMLModel ex"
    and "compiledOrder_x ex = pre @ r # post"
    and "compileNodes E (graph_x ex) (spread (weightMap ex) inputTensors)
           (newExecutionContext E (weightMap ex)) pre
           (ex\<lparr>model := []\<rparr>, Object_prototype_keys) = Inr st"
    and "compileNode E (graph_x ex) (spread (weightMap ex) inputTensors)
           (newExecutionContext E (weightMap ex)) (nodeAt (graph_x ex) r) st = Inl e"
  shows "compileWebMLModel E ex inputTensors = Inl e"
  using assms by (simp add: compileWebMLModel_def Let_def compileNodes_append)

text \<open>
  Claim C7, amended. Let the nodes that precede a node in the compiled order compile
  without error, and let the node not be marked as visited in the state they leave: its
  name is none that objects inherit, no node of its name was compiled, and it was not
  fused into a convolution or a pooling. Let the node be a \<^verbatim>\<open>conv2d\<close> or
  \<^verbatim>\<open>depthwiseConv2d\<close> whose first child is an \<^verbatim>\<open>add\<close> that has a child, with known operands
  for its first two inputs and for the second input of the \<^verbatim>\<open>add\<close>, or an \<^verbatim>\<open>avgPool\<close>
  that has a child, with a known operand for its first input. Then a padding other than
  \<^verbatim>\<open>same\<close> and \<^verbatim>\<open>valid\<close> aborts \<^verbatim>\<open>compileWebMLModel\<close> with the error
  \<^verbatim>\<open>padding <value> is not supported\<close>. If the node is such a convolution, its padding
  is \<^verbatim>\<open>same\<close> or \<^verbatim>\<open>valid\<close>, it has a \<^verbatim>\<open>strides\<close> parameter, and its data format is a
  string whose upper case is not \<^verbatim>\<open>NHWC\<close>, then \<^verbatim>\<open>compileWebMLModel\<close> aborts with the
  error \<^verbatim>\<open>dataFormat <VALUE> is not supported\<close>, the value in upper case. Nothing is
  stated of the dilations, which the code does not check.
\<close>

theorem unsupported_padding_or_layout_aborts:
  fixes E :: ext and ex :: GraphExecutor and inputTensors :: NamedTensorsMap
  defines "g \<equiv> graph_x ex"
    and "tmap \<equiv> spread (weightMap ex) inputTensors"
    and "cx \<equiv> newExecutionContext E (weightMap ex)"
  assumes "\<not> compiledWebMLModel ex"
    and "compiledOrder_x ex = pre @ r # post"
    and "compileNodes E g tmap cx pre (ex\<lparr>model := []\<rparr>, Object_prototype_keys) = Inr st"
    and "name (nodeAt g r) \<notin> snd st"
  shows
    "(((op (nodeAt g r) = ''conv2d'' \<or> op (nodeAt g r) = ''depthwiseConv2d'') \<and>
         conv_reaches_parameters g (nodeAt g r) (fst st) \<or>
       op (nodeAt g r) = ''avgPool'' \<and> pool_reaches_parameters (nodeAt g r) (fst st)) \<and>
      getParamValue E ''pad'' (nodeAt g r) tmap cx \<noteq> PString ''same'' \<and>
      getParamValue E ''pad'' (nodeAt g r) tmap cx \<noteq> PString ''valid''
      \<longrightarrow> compileWebMLModel E ex inputTensors =
            Inl (Error (''padding '' @ jsString (getParamValue E ''pad'' (nodeAt g r) tmap cx)
                        @ '' is not supported''))) \<and>
     ((op (nodeAt g r) = ''conv2d'' \<or> op (nodeAt g r) = ''depthwiseConv2d'') \<and>
      conv_reaches_parameters g (nodeAt g r) (fst st) \<and>
      (getParamValue E ''pad'' (nodeAt g r) tmap cx = PString ''same'' \<or>
       getParamValue E ''pad'' (nodeAt g r) tmap cx = PString ''valid'') \<and>
      getParamValue E ''strides'' (nodeAt g r) tmap cx \<noteq> PUndefined \<and>
      getParamValue E ''dataFormat'' (nodeAt g r) tmap cx = PString df \<and>
      map upperChar df \<noteq> ''NHWC''
      \<longrightarrow> compileWebMLModel E ex inputTensors =
            Inl (Error (''dataFormat '' @ map upperChar df @ '' is not supported'')))"
proof (intro conjI impI)
  assume a: "((op (nodeAt g r) = ''conv2d'' \<or> op (nodeAt g r) = ''depthwiseConv2d'') \<and>
         conv_reaches_parameters g (nodeAt g r) (fst st) \<or>
       op (nodeAt g r) = ''avgPool'' \<and> pool_reaches_parameters (nodeAt g r) (fst st)) \<and>
      getParamValue E ''pad'' (nodeAt g r) tmap cx \<noteq> PString ''same'' \<and>
      getParamValue E ''pad'' (nodeAt g r) tmap cx \<noteq> PString ''valid''"
  then have "compileNode E g tmap cx (nodeAt g r) st =
      Inl (Error (''padding '' @ jsString (getParamValue E ''pad'' (nodeAt g r) tmap cx)
                        @ '' is not supported''))"
    using conv_pad_error[OF _ assms(7), of g E tmap cx] pool_pad_error[OF _ assms(7), of E tmap cx g]
    by blast
  then show "compileWebMLModel E ex inputTensors =
      Inl (Error (''padding '' @ jsString (getParamValue E ''pad'' (nodeAt g r) tmap cx)
                        @ '' is not supported''))"
    using compileWebMLModel_abort[OF assms(4,5)] assms(6) unfolding g_def tmap_def cx_def by blast
next
  assume a: "(op (nodeAt g r) = ''conv2d'' \<or> op (nodeAt g r) = ''depthwiseConv2d'') \<and>
      conv_reaches_parameters g (nodeAt g r) (fst st) \<and>
      (getParamValue E ''pad'' (nodeAt g r) tmap cx = PString ''same'' \<or>
       getParamValue E ''pad'' (nodeAt g r) tmap cx = PString ''valid'') \<and>
      getParamValue E ''strides'' (nodeAt g r) tmap cx \<noteq> PUndefined \<and>
      getParamValue E ''dataFormat'' (nodeAt g r) tmap cx = PString df \<and>
      map upperChar df \<noteq> ''NHWC''"
  then have "compileNode E g tmap cx (nodeAt g r) st =
      Inl (Error (''dataFormat '' @ map upperChar df @ '' is not supported''))"
    using conv_dataFormat_error[OF _ assms(7), of g E tmap cx df] by blast
  then show "compileWebMLModel E ex inputTensors =
      Inl (Error (''dataFormat '' @ map upperChar df @ '' is not supported''))"
    using compileWebMLModel_abort[OF assms(4,5)] assms(6) unfolding g_def tmap_def cx_def by blast
qed


lemma pool_state_reached:
  "compileNodes example_ext (pool_graph pad) (spread [] conv_inputs)
     (newExecutionContext example_ext []) [0]
     ((pool_executor pad)\<lparr>model := []\<rparr>, Object_prototype_keys)
   = Inr (pool_state pad)"
  by (simp add: example_ext_def pool_graph_def pool_executor_def pool_state_def conv_inputs_def
      compile_defs)

theorem unsupported_padding_or_layout_aborts_witness:
  "op (nodeAt (conv_graph ''full'' ''NHWC'' [1, 1, 1, 1] ''add'') 3) = ''conv2d'' \<and>
   compileWebMLModel example_ext (conv_executor ''full'' ''NHWC'' [1, 1, 1, 1] ''add'') conv_inputs
     = Inl (Error ''padding full is not supported'') \<and>
   compileWebMLModel example_ext (conv_executor ''full'' ''nchw'' [1, 1, 1, 1] ''add'') conv_inputs
     = Inl (Error ''padding full is not supported'') \<and>
   compileWebMLModel example_ext (conv_executor ''same'' ''nchw'' [1, 1, 1, 1] ''add'') conv_inputs
     = Inl (Error ''dataFormat NCHW is not supported'') \<and>
   op (nodeAt (pool_graph ''full'') 1) = ''avgPool'' \<and>
   compileWebMLModel example_ext (pool_executor ''full'') conv_inputs
     = Inl (Error ''padding full is not supported'')"
proof -
  have a: "compileWebMLModel example_ext (conv_executor pad df [1, 1, 1, 1] ''add'') conv_inputs
     = (if pad \<noteq> ''same'' \<and> pad \<noteq> ''valid''
        then Inl (Error (''padding '' @ pad @ '' is not supported''))
        else if map upperChar df \<noteq> ''NHWC''
        then Inl (Error (''dataFormat '' @ map upperChar df @ '' is not supported''))
        else compileWebMLModel example_ext (conv_executor pad df [1, 1, 1, 1] ''add'') conv_inputs)"
    for pad df
  proof -
    let ?ex = "conv_executor pad df [1, 1, 1, 1] ''add''"
    let ?g = "graph_x ?ex"
    let ?tmap = "spread (weightMap ?ex) conv_inputs"
    let ?cx = "newExecutionContext example_ext (weightMap ?ex)"
    let ?st = "conv_state pad df [1, 1, 1, 1] ''add''"
    have h1: "\<not> compiledWebMLModel ?ex" by (simp add: conv_executor_def)
    have h2: "compiledOrder_x ?ex = [2, 1, 0] @ 3 # [4, 5, 6]" by (simp add: conv_executor_def)
    have h3: "compileNodes example_ext ?g ?tmap ?cx [2, 1, 0]
        (?ex\<lparr>model := []\<rparr>, Object_prototype_keys) = Inr ?st"
      using conv_state_reached[of pad df "[1, 1, 1, 1]" "''add''"]
      by (simp add: conv_executor_def conv_tmap_def)
    have h4: "name (nodeAt ?g 3) \<notin> snd ?st" by (simp add: conv_defs)
    have c: "(op (nodeAt ?g 3) = ''conv2d'' \<or> op (nodeAt ?g 3) = ''depthwiseConv2d'') \<and>
        conv_reaches_parameters ?g (nodeAt ?g 3) (fst ?st)"
      by (simp add: conv_defs conv_reaches_parameters_def convFusion_def deref_def idx_def key_of_def)
    have p: "getParamValue example_ext ''pad'' (nodeAt ?g 3) ?tmap ?cx = PString pad"
      by (simp add: conv_defs)
    have s: "getParamValue example_ext ''strides'' (nodeAt ?g 3) ?tmap ?cx \<noteq> PUndefined"
      by (simp add: conv_defs)
    have d: "getParamValue example_ext ''dataFormat'' (nodeAt ?g 3) ?tmap ?cx = PString df"
      by (simp add: conv_defs)
    from unsupported_padding_or_layout_aborts[OF h1 h2 h3 h4, of df] c p s d
    show ?thesis by (auto simp: jsString_def)
  qed
  have b: "compileWebMLModel example_ext (pool_executor ''full'') conv_inputs
     = Inl (Error ''padding full is not supported'')"
  proof -
    let ?ex = "pool_executor ''full''"
    let ?g = "graph_x ?ex"
    let ?tmap = "spread (weightMap ?ex) conv_inputs"
    let ?cx = "newExecutionContext example_ext (weightMap ?ex)"
    have h1: "\<not> compiledWebMLModel ?ex" by (simp add: pool_executor_def)
    have h2: "compiledOrder_x ?ex = [0] @ 1 # [2]" by (simp add: pool_executor_def)
    have h3: "compileNodes example_ext ?g ?tmap ?cx [0]
        (?ex\<lparr>model := []\<rparr>, Object_prototype_keys) = Inr (pool_state ''full'')"
      using pool_state_reached[of "''full''"] by (simp add: pool_executor_def)
    have h4: "name (nodeAt ?g 1) \<notin> snd (pool_state ''full'')"
      by (simp add: pool_executor_def pool_graph_def pool_state_def)
    have c: "op (nodeAt ?g 1) = ''avgPool'' \<and>
        pool_reaches_parameters (nodeAt ?g 1) (fst (pool_state ''full''))"
      by (simp add: pool_executor_def pool_graph_def pool_state_def pool_reaches_parameters_def
          idx_def key_of_def)
    have p: "getParamValue example_ext ''pad'' (nodeAt ?g 1) ?tmap ?cx = PString ''full''"
      by (simp add: pool_executor_def pool_graph_def example_ext_def)
    from unsupported_padding_or_layout_aborts[OF h1 h2 h3 h4, of "[]"] c p
    show ?thesis by (simp add: jsString_def)
  qed
  have o1: "op (nodeAt (conv_graph ''full'' ''NHWC'' [1, 1, 1, 1] ''add'') 3) = ''conv2d''"
    by (simp add: conv_graph_def)
  have o2: "op (nodeAt (pool_graph ''full'') 1) = ''avgPool''" by (simp add: pool_graph_def)
  have a1: "compileWebMLModel example_ext (conv_executor ''full'' ''NHWC'' [1, 1, 1, 1] ''add'')
      conv_inputs = Inl (Error ''padding full is not supported'')"
    by (subst a) simp
  have a3: "compileWebMLModel example_ext (conv_executor ''full'' ''nchw'' [1, 1, 1, 1] ''add'')
      conv_inputs = Inl (Error ''padding full is not supported'')"
    by (subst a) simp
  have a2: "compileWebMLModel example_ext (conv_executor ''same'' ''nchw'' [1, 1, 1, 1] ''add'')
      conv_inputs = Inl (Error ''dataFormat NCHW is not supported'')"
    by (subst a) (simp add: upperChar_def)
  from o1 a1 a3 a2 o2 b show ?thesis by (intro conjI)
qed

section \<open>Accelerated compilation: the bias of a convolution\<close>

lemma bindE_InrE:
  assumes "bindE m f = Inr y"
  obtains x where "m = Inr x" and "f x = Inr y"
  using assms by (cases m) (simp_all)

lemma conv_first_child_not_add:
  assumes "op n = ''conv2d'' \<or> op n = ''depthwiseConv2d''"
    and "name n \<notin> snd st"
    and "idx (children n) 0 = Some c0"
    and "op (nodeAt g c0) \<noteq> ''add''"
  shows "compileNode E g tmap cx n st =
     (case readOperand (operandInfos (fst st)) (key_of (idx (inputNames n) 0)) of
        None \<Rightarrow> Inl (TypeError ''input.index'')
      | Some input \<Rightarrow>
          (case readOperand (operandInfos (fst st)) (key_of (idx (inputNames n) 1)) of
             None \<Rightarrow> Inl (TypeError ''filter.index'')
           | Some flt \<Rightarrow> Inl (TypeError ''biasAdd.inputNames'')))"
proof -
  have f: "convFusion g n = Inr (None, None)"
    using assms(3,4) by (simp add: convFusion_def deref_def)
  have "compileConv E g tmap cx n st =
     (case readOperand (operandInfos (fst st)) (key_of (idx (inputNames n) 0)) of
        None \<Rightarrow> Inl (TypeError ''input.index'')
      | Some input \<Rightarrow>
          (case readOperand (operandInfos (fst st)) (key_of (idx (inputNames n) 1)) of
             None \<Rightarrow> Inl (TypeError ''filter.index'')
           | Some flt \<Rightarrow> Inl (TypeError ''biasAdd.inputNames'')))"
    by (simp add: compileConv_def f deref_def Let_def split: option.splits)
  with assms(1,2) show ?thesis by (auto simp: compileNode_def)
qed

lemma conv_success_needs_add:
  assumes "op n = ''conv2d'' \<or> op n = ''depthwiseConv2d''"
    and "name n \<notin> snd st"
    and "compileNode E g tmap cx n st = Inr st'"
  shows "\<exists>c0 bias. idx (children n) 0 = Some c0 \<and> op (nodeAt g c0) = ''add'' \<and>
           readOperand (operandInfos (fst st)) (key_of (idx (inputNames (nodeAt g c0)) 1))
             = Some bias"
proof -
  from assms have c: "compileConv E g tmap cx n st = Inr st'"
    by (auto simp: compileNode_def)
  from c obtain p where f: "convFusion g n = Inr p" and
    r: "(case p of (biasAdd, relu) \<Rightarrow>
          bindE (deref ''input.index''
                   (readOperand (operandInfos (fst st)) (key_of (idx (inputNames n) 0))))
           (\<lambda>input. bindE (deref ''filter.index''
                   (readOperand (operandInfos (fst st)) (key_of (idx (inputNames n) 1))))
           (\<lambda>filter. bindE (deref ''biasAdd.inputNames'' biasAdd)
           (\<lambda>b. bindE (deref ''bias.index''
                   (readOperand (operandInfos (fst st)) (key_of (idx (inputNames b) 1))))
           (\<lambda>bias. Inr ()))))) = Inr ()"
    unfolding compileConv_def
    by (auto simp: Let_def bindE_def split: sum.splits prod.splits)
  obtain biasAdd relu where p: "p = (biasAdd, relu)" by (cases p)
  from r p obtain b bias where
    b: "biasAdd = Some b" and
    bias: "readOperand (operandInfos (fst st)) (key_of (idx (inputNames b) 1)) = Some bias"
    by (auto simp: bindE_def deref_def split: sum.splits option.splits)
  from f p b obtain c0 where "idx (children n) 0 = Some c0" "op (nodeAt g c0) = ''add''"
    "b = nodeAt g c0"
    by (auto simp: convFusion_def bindE_def deref_def split: option.splits if_splits sum.splits)
  with bias show ?thesis by blast
qed

text \<open>A read of the operand table under a name that was never written and that every
  object inherits does not throw: a softmax of the input \<^verbatim>\<open>toString\<close> is compiled, with
  \<^verbatim>\<open>undefined\<close> as the index of its input and as the dimensions of its output.\<close>

lemma softmax_of_inherited_name:
  "map_sum (\<lambda>e. e) (\<lambda>st. drop 1 (model (fst st)))
     (compileNode accel_ext squeeze_graph squeeze_inputs (newExecutionContext accel_ext [])
        \<lparr>name = ''p'', op = ''softmax'', inputNames = [''toString''], children = [],
         params = Map.empty\<rparr> squeeze_state)
   = Inr [AddOperand 1 None, SetOperandValue 1 (Float32Array [1]), AddOperand 2 None,
          AddOperation 25 [None, Some 1] [2]]"
  by (simp add: accel_defs compile_defs readOperand_def Object_prototype_keys_def)

text \<open>
  Claim C9. For a \<^verbatim>\<open>conv2d\<close> or \<^verbatim>\<open>depthwiseConv2d\<close> node that the compilation has not yet
  marked: when its first child is not an \<^verbatim>\<open>add\<close>, compiling the node ends in a
  \<^verbatim>\<open>TypeError\<close> (with known input and filter operands it is the read of
  \<^verbatim>\<open>biasAdd.inputNames\<close> on \<^verbatim>\<open>undefined\<close>), for every value of the parameters, so no
  descriptive error is reached; and whenever compiling the node succeeds, its first
  child is an \<^verbatim>\<open>add\<close> and the bias operand is what the operand table yields under the
  second input of that child, which is then not \<^verbatim>\<open>undefined\<close>.
\<close>

theorem conv_bias_needs_add_child:
  assumes "op n = ''conv2d'' \<or> op n = ''depthwiseConv2d''"
    and "name n \<notin> snd st"
  shows
    "(idx (children n) 0 = Some c0 \<and> op (nodeAt g c0) \<noteq> ''add'' \<longrightarrow>
        (\<exists>site. compileNode E g tmap cx n st = Inl (TypeError site)) \<and>
        (operandInfos (fst st) (key_of (idx (inputNames n) 0)) \<noteq> None \<and>
         operandInfos (fst st) (key_of (idx (inputNames n) 1)) \<noteq> None \<longrightarrow>
         compileNode E g tmap cx n st = Inl (TypeError ''biasAdd.inputNames''))) \<and>
     (compileNode E g tmap cx n st = Inr st' \<longrightarrow>
        (\<exists>c bias. idx (children n) 0 = Some c \<and> op (nodeAt g c) = ''add'' \<and>
           readOperand (operandInfos (fst st)) (key_of (idx (inputNames (nodeAt g c)) 1))
             = Some bias))"
proof (intro conjI impI)
  assume a: "idx (children n) 0 = Some c0 \<and> op (nodeAt g c0) \<noteq> ''add''"
  note e = conv_first_child_not_add[OF assms, of c0 g E tmap cx]
  from a e show "\<exists>site. compileNode E g tmap cx n st = Inl (TypeError site)"
    by (auto split: option.splits)
  assume "operandInfos (fst st) (key_of (idx (inputNames n) 0)) \<noteq> None \<and>
         operandInfos (fst st) (key_of (idx (inputNames n) 1)) \<noteq> None"
  with a e show "compileNode E g tmap cx n st = Inl (TypeError ''biasAdd.inputNames'')"
    by (auto split: option.splits)
next
  assume "compileNode E g tmap cx n st = Inr st'"
  from conv_success_needs_add[OF assms this]
  show "\<exists>c bias. idx (children n) 0 = Some c \<and> op (nodeAt g c) = ''add'' \<and>
           readOperand (operandInfos (fst st)) (key_of (idx (inputNames (nodeAt g c)) 1))
             = Some bias" .
qed


theorem conv_bias_needs_add_child_witness:
  "op (nodeAt (conv_graph ''full'' ''NHWC'' [1, 1, 1, 1] ''relu'') 3) = ''conv2d'' \<and>
   name (nodeAt (conv_graph ''full'' ''NHWC'' [1, 1, 1, 1] ''relu'') 3)
     \<notin> snd (conv_state ''full'' ''NHWC'' [1, 1, 1, 1] ''relu'') \<and>
   idx (children (nodeAt (conv_graph ''full'' ''NHWC'' [1, 1, 1, 1] ''relu'') 3)) 0 = Some 4 \<and>
   op (nodeAt (conv_graph ''full'' ''NHWC'' [1, 1, 1, 1] ''relu'') 4) = ''relu'' \<and>
   compileNode example_ext (conv_graph ''full'' ''NHWC'' [1, 1, 1, 1] ''relu'') conv_tmap
     (newExecutionContext example_ext [])
     (nodeAt (conv_graph ''full'' ''NHWC'' [1, 1, 1, 1] ''relu'') 3)
     (conv_state ''full'' ''NHWC'' [1, 1, 1, 1] ''relu'')
   = Inl (TypeError ''biasAdd.inputNames'')"
proof -
  let ?g = "conv_graph ''full'' ''NHWC'' [1, 1, 1, 1] ''relu''"
  let ?st = "conv_state ''full'' ''NHWC'' [1, 1, 1, 1] ''relu''"
  have h1: "op (nodeAt ?g 3) = ''conv2d'' \<or> op (nodeAt ?g 3) = ''depthwiseConv2d''"
    by (simp add: conv_graph_def)
  have o: "op (nodeAt ?g 3) = ''conv2d''" by (simp add: conv_graph_def)
  have h2: "name (nodeAt ?g 3) \<notin> snd ?st" by (simp add: conv_defs)
  have c: "idx (children (nodeAt ?g 3)) 0 = Some 4" by (simp add: conv_graph_def idx_def)
  have r: "op (nodeAt ?g 4) = ''relu''" by (simp add: conv_graph_def)
  have k: "operandInfos (fst ?st) (key_of (idx (inputNames (nodeAt ?g 3)) 0)) \<noteq> None \<and>
           operandInfos (fst ?st) (key_of (idx (inputNames (nodeAt ?g 3)) 1)) \<noteq> None"
    by (simp add: conv_defs idx_def key_of_def)
  from conv_bias_needs_add_child[OF h1 h2, of 4 ?g example_ext conv_tmap
      "newExecutionContext example_ext []"] c r k
  have "compileNode example_ext ?g conv_tmap (newExecutionContext example_ext [])
      (nodeAt ?g 3) ?st = Inl (TypeError ''biasAdd.inputNames'')"
    by simp
  with o h2 c r show ?thesis by (intro conjI)
qed


section \<open>The requested outputs of \<^verbatim>\<open>execute\<close>\<close>

lemma squeeze_execute_webgl:
  assumes "outs = OutputNames [''sq''] \<or> outs = OutputName ''sq''"
  shows "execute example_ext squeeze_executor squeeze_inputs outs
   = Inr ([(''sq'', Some \<lparr>id_t = 101, dtype_t = ''float32'', shape_t = [1]\<rparr>)], squeeze_executor)"
  using assms
  by (auto simp: execute_def checkInput_def findOutputs_def accel_defs spread_def elem_def)

lemma squeeze_execute:
  "map_sum (\<lambda>e. e) fst (execute accel_ext squeeze_executor squeeze_inputs outs)
   = Inr [(''y'', Some \<lparr>id_t = 999, dtype_t = ''float32'', shape_t = [1, 3]\<rparr>)]"
  by (simp add: execute_def checkInput_def compileWebMLModel_def executeWebMLModel_def
      accel_defs compile_defs squeezeShape_drop)

text \<open>
  Claim C6. The claim is that a call of \<^verbatim>\<open>execute\<close> that requests a reachable node,
  declared output of the graph or not, returns the value of that node under its name,
  on every execution path. The documentation of \<^verbatim>\<open>execute\<close> promises as much, and the
  branch for the backend \<^verbatim>\<open>webgl\<close> hands the argument to \<^verbatim>\<open>findOutputs\<close>. The other
  branch calls \<^verbatim>\<open>executeWebMLModel\<close> without the argument, for which that function
  declares a parameter, and returns the first declared output of the graph alone. For
  the graph \<^verbatim>\<open>x -> sq -> y\<close> and a request for \<^verbatim>\<open>sq\<close>, as an array of names or as a
  single name, the call returns the value of \<^verbatim>\<open>sq\<close> on \<^verbatim>\<open>webgl\<close>; on another backend
  it returns a map whose only key is \<^verbatim>\<open>y\<close>.
\<close>

theorem requested_output_ignored_on_accelerated_path:
  "getBackend accel_ext \<noteq> ''webgl'' \<and> getBackend example_ext = ''webgl'' \<and>
   name (nodeAt squeeze_graph 1) = ''sq'' \<and>
   compiledOrder_x squeeze_executor = [0, 1, 3, 2] \<and>
   outputs squeeze_graph = [3] \<and>
   map_sum (\<lambda>e. e) fst
     (execute example_ext squeeze_executor squeeze_inputs (OutputNames [''sq'']))
   = Inr [(''sq'', Some \<lparr>id_t = 101, dtype_t = ''float32'', shape_t = [1]\<rparr>)] \<and>
   map_sum (\<lambda>e. e) fst
     (execute example_ext squeeze_executor squeeze_inputs (OutputName ''sq''))
   = Inr [(''sq'', Some \<lparr>id_t = 101, dtype_t = ''float32'', shape_t = [1]\<rparr>)] \<and>
   map_sum (\<lambda>e. e) fst
     (execute accel_ext squeeze_executor squeeze_inputs (OutputNames [''sq'']))
   = Inr [(''y'', Some \<lparr>id_t = 999, dtype_t = ''float32'', shape_t = [1, 3]\<rparr>)] \<and>
   map_sum (\<lambda>e. e) fst
     (execute accel_ext squeeze_executor squeeze_inputs (OutputName ''sq''))
   = Inr [(''y'', Some \<lparr>id_t = 999, dtype_t = ''float32'', shape_t = [1, 3]\<rparr>)]"
proof -
  have b: "getBackend accel_ext \<noteq> ''webgl'' \<and> getBackend example_ext = ''webgl''"
    by (simp add: accel_ext_def example_ext_def)
  have n: "name (nodeAt squeeze_graph 1) = ''sq'' \<and>
      compiledOrder_x squeeze_executor = [0, 1, 3, 2] \<and> outputs squeeze_graph = [3]"
    by (simp add: squeeze_graph_def squeeze_executor_def)
  from b n show ?thesis by (simp add: squeeze_execute squeeze_execute_webgl)
qed

end
